theory Spec2Isabelle
  imports Main "HOL-Library.AList"
begin

section \<open>Data model\<close>

text \<open>
  The server keeps two JavaScript \<^verbatim>\<open>Map\<close>s: \<^verbatim>\<open>rooms\<close> (room code to Room) and
  \<^verbatim>\<open>userConnections\<close> (participant id to WebSocket). A JavaScript Map iterates in
  insertion order, \<^verbatim>\<open>set\<close> on a present key replaces the value in place and
  \<^verbatim>\<open>delete\<close> removes the key, so a Map is an association list read with
  \<open>map_of\<close>, written with \<open>AList.update\<close> and \<open>AList.delete\<close>.

  A WebSocket object is an identity (a number); what the handler reads of it is its
  \<^verbatim>\<open>readyState\<close>, kept in a store from sockets to states. What the handler does to
  a socket (\<^verbatim>\<open>send\<close>, \<^verbatim>\<open>close\<close>) is an event of the output trace.
\<close>

type_synonym ws = nat

datatype ready_state = CONNECTING | OPEN | CLOSING | CLOSED

record user =
  user_id :: string
  user_name :: string
  isHost :: bool

record song_input =
  in_title :: string
  in_artist :: string
  in_uri :: string

record song =
  song_id :: string
  title :: string
  artist :: string
  uri :: string
  addedBy :: string
  votedBy :: "string list"

record room =
  room_id :: string
  hostId :: string
  users :: "(string \<times> user) list"
  queue :: "song list"
  createdAt :: int

text \<open>The snapshot that \<^verbatim>\<open>room.toJSON()\<close> produces.\<close>

record snapshot =
  snap_id :: string
  snap_hostId :: string
  snap_createdAt :: int
  snap_users :: "user list"
  snap_queue :: "song list"

text \<open>
  An inbound message after \<^verbatim>\<open>JSON.parse\<close>. The handler switches on the
  \<^verbatim>\<open>type\<close> string and then reads the fields of the message type it casts to.
  The message types (\<^verbatim>\<open>types.ts\<close>) and the classes of \<^verbatim>\<open>Room.ts\<close> are not among
  the sources: the fields of the records above and of \<open>message\<close> are those of sections 3
  and 6 of the specification, typed as the protocol table gives them.
\<close>

record message =
  mtype :: string
  userName :: string
  roomCode :: string
  msong :: song_input
  songId :: string

text \<open>
  A frame is text that is not JSON, the JSON text \<^verbatim>\<open>null\<close>, or the JSON text of a
  message.
\<close>

datatype frame = Malformed | JsonNull | Wellformed message

datatype exn = SyntaxError | TypeError

datatype out_msg =
    RoomCreated string string snapshot
  | RoomJoined string string snapshot
  | UserJoined "user option" snapshot
  | SongAdded song snapshot
  | SongVoted string string snapshot
  | SongSkipped song snapshot
  | QueueCleared snapshot
  | RoomState snapshot
  | UserLeft string "string option" "string option" snapshot
  | Pong
  | Error string
  | ServerShutdown string

datatype event = Send ws out_msg | Close ws

text \<open>The two closure variables of one connection, \<^verbatim>\<open>string | null\<close> each.\<close>

record session =
  s_userId :: "string option"
  s_roomId :: "string option"

text \<open>The fields of \<^verbatim>\<open>WebSocketHandler\<close>, and the sockets' \<^verbatim>\<open>readyState\<close>.\<close>

record handler =
  rooms :: "(string \<times> room) list"
  userConnections :: "(string \<times> ws) list"
  readyState :: "ws \<Rightarrow> ready_state"

section \<open>Room\<close>

text \<open>
  \<^verbatim>\<open>Room.ts\<close> is imported by the handler and is not among the sources; its
  constructor and methods are modelled from section 4.3 of the specification.
\<close>

text \<open>
  Modelled from the spec: the constructor of Room (Room.ts is missing). "allocates a
  Room with that single host user"; "first user (from create) is marked host";
  createdAt is "set once at creation".
\<close>

definition new_Room :: "string \<Rightarrow> string \<Rightarrow> string \<Rightarrow> int \<Rightarrow> room" where
  "new_Room rid hid hname now =
     \<lparr>room_id = rid, hostId = hid,
      users = [(hid, \<lparr>user_id = hid, user_name = hname, isHost = True\<rparr>)],
      queue = [], createdAt = now\<rparr>"

text \<open>
  Modelled from the spec: Room.addUser (Room.ts is missing). "appends to users;
  appended users are not [host]"; users is an insertion-ordered mapping.
\<close>

definition addUser :: "string \<Rightarrow> string \<Rightarrow> room \<Rightarrow> room" where
  "addUser uid nm r =
     r\<lparr>users := AList.update uid \<lparr>user_id = uid, user_name = nm, isHost = False\<rparr> (users r)\<rparr>"

text \<open>
  Modelled from the spec: Room.removeUser (Room.ts is missing). "removes the user. If
  the removed user was host and users is still non-empty, promotes the earliest-joined
  remaining user to host and returns its id; otherwise returns none."
\<close>

definition removeUser :: "string \<Rightarrow> room \<Rightarrow> string option \<times> room" where
  "removeUser uid r =
     (let us = AList.delete uid (users r) in
      case us of
        [] \<Rightarrow> (None, r\<lparr>users := us\<rparr>)
      | (k, u) # rest \<Rightarrow>
          if uid = hostId r
          then (Some k, r\<lparr>users := (k, u\<lparr>isHost := True\<rparr>) # rest, hostId := k\<rparr>)
          else (None, r\<lparr>users := us\<rparr>))"

text \<open>
  Modelled from the spec: Room.addSong (Room.ts is missing). "assigns a fresh id,
  votedBy = {}, appends to the end of the queue in insertion order". The fresh id is
  the argument fresh.
\<close>

definition addSong :: "song_input \<Rightarrow> string \<Rightarrow> string \<Rightarrow> room \<Rightarrow> song \<times> room" where
  "addSong inp addedByName fresh r =
     (let s = \<lparr>song_id = fresh, title = in_title inp, artist = in_artist inp,
               uri = in_uri inp, addedBy = addedByName, votedBy = []\<rparr>
      in (s, r\<lparr>queue := queue r @ [s]\<rparr>))"

text \<open>
  Modelled from the spec: the queue update of Room.voteSong (Room.ts is missing);
  None when "the song is not in the queue or userId already in votedBy".
\<close>

fun voteQueue :: "string \<Rightarrow> string \<Rightarrow> song list \<Rightarrow> song list option" where
  "voteQueue sid uid [] = None"
| "voteQueue sid uid (s # q) =
     (if song_id s = sid
      then (if uid \<in> set (votedBy s) then None
            else Some (s\<lparr>votedBy := votedBy s @ [uid]\<rparr> # q))
      else map_option ((#) s) (voteQueue sid uid q))"

text \<open>
  Modelled from the spec: Room.voteSong (Room.ts is missing). "fails (false) if the
  song is not in the queue or userId already in votedBy; otherwise adds userId to
  votedBy and returns true."
\<close>

definition voteSong :: "string \<Rightarrow> string \<Rightarrow> room \<Rightarrow> bool \<times> room" where
  "voteSong sid uid r =
     (case voteQueue sid uid (queue r) of
        None \<Rightarrow> (False, r)
      | Some q \<Rightarrow> (True, r\<lparr>queue := q\<rparr>))"

text \<open>
  Modelled from the spec: the rank order of the queue (Room.ts is missing). "primary
  key = descending vote count; tie-break = ascending insertion order"; the sort is
  stable.
\<close>

definition rankedQueue :: "song list \<Rightarrow> song list" where
  "rankedQueue q = sort_key (\<lambda>s. - int (length (votedBy s))) q"

text \<open>
  Modelled from the spec: Room.skipCurrentSong (Room.ts is missing). "current song =
  the head of the rank-ordered queue. Removes and returns it, or none if the queue is
  empty."
\<close>

definition skipCurrentSong :: "room \<Rightarrow> song option \<times> room" where
  "skipCurrentSong r =
     (case rankedQueue (queue r) of
        [] \<Rightarrow> (None, r)
      | s # _ \<Rightarrow> (Some s, r\<lparr>queue := remove1 s (queue r)\<rparr>))"

text \<open>
  Modelled from the spec: Room.clearQueue (Room.ts is missing). "empties the queue
  unconditionally".
\<close>

definition clearQueue :: "room \<Rightarrow> room" where
  "clearQueue r = r\<lparr>queue := []\<rparr>"

text \<open>
  Modelled from the spec: Room.toJSON (Room.ts is missing). "Snapshot shape: {id,
  hostId, createdAt, users: [...], queue: [...] in rank order}".
\<close>

definition toJSON :: "room \<Rightarrow> snapshot" where
  "toJSON r =
     \<lparr>snap_id = room_id r, snap_hostId = hostId r, snap_createdAt = createdAt r,
      snap_users = map snd (users r), snap_queue = rankedQueue (queue r)\<rparr>"

section \<open>WebSocketHandler\<close>

text \<open>
  Every method takes the handler state and returns the new state with the events it
  emitted, in order. A Room is a mutable object held by the \<^verbatim>\<open>rooms\<close> Map: a method
  that mutates the room writes the new value back under the same key, which keeps the
  key's position. \<^verbatim>\<open>uuidv4()\<close> and the clock are inputs: \<open>fresh\<close> is the identifier the
  next \<^verbatim>\<open>uuidv4()\<close> call returns and \<open>now\<close> the current time in milliseconds.
\<close>

definition truthy :: "string option \<Rightarrow> bool" where
  \<comment> \<open>JavaScript truthiness of a \<^verbatim>\<open>string | null\<close>: null and the empty string are falsy.\<close>
  "truthy v = (case v of None \<Rightarrow> False | Some s \<Rightarrow> s \<noteq> [])"

definition JSON_parse :: "frame \<Rightarrow> exn + message option" where
  \<comment> \<open>\<^verbatim>\<open>JSON.parse\<close> throws a SyntaxError on text that is not JSON; \<open>None\<close> is \<^verbatim>\<open>null\<close>.\<close>
  "JSON_parse d =
     (case d of
        Malformed \<Rightarrow> Inl SyntaxError
      | JsonNull \<Rightarrow> Inr None
      | Wellformed m \<Rightarrow> Inr (Some m))"

definition sendTo :: "handler \<Rightarrow> out_msg \<Rightarrow> string option \<Rightarrow> user \<Rightarrow> event list" where
  \<comment> \<open>The body of the \<^verbatim>\<open>forEach\<close> callback of broadcastToRoom.\<close>
  "sendTo st msg excludeUserId u =
     (if Some (user_id u) \<noteq> excludeUserId
      then (case map_of (userConnections st) (user_id u) of
              None \<Rightarrow> []
            | Some w \<Rightarrow> if readyState st w = OPEN then [Send w msg] else [])
      else [])"

definition broadcastToRoom :: "string \<Rightarrow> out_msg \<Rightarrow> string option \<Rightarrow> handler \<Rightarrow> event list" where
  "broadcastToRoom roomId msg excludeUserId st =
     (case map_of (rooms st) roomId of
        None \<Rightarrow> []
      | Some r \<Rightarrow> concat (map (\<lambda>(k, u). sendTo st msg excludeUserId u) (users r)))"

definition handleCreateRoom ::
  "ws \<Rightarrow> message \<Rightarrow> string \<Rightarrow> int \<Rightarrow> session \<Rightarrow> handler \<Rightarrow> handler \<times> session \<times> event list" where
  "handleCreateRoom w m fresh now sess st =
     (let userId = fresh;
          roomId = roomCode m;
          r = new_Room roomId userId (userName m) now;
          st1 = st\<lparr>rooms := AList.update roomId r (rooms st)\<rparr>;
          st2 = st1\<lparr>userConnections := AList.update userId w (userConnections st1)\<rparr>
      in (st2, \<lparr>s_userId = Some userId, s_roomId = Some roomId\<rparr>,
          [Send w (RoomCreated roomId userId (toJSON r))]))"

definition handleJoinRoom ::
  "ws \<Rightarrow> message \<Rightarrow> string \<Rightarrow> session \<Rightarrow> handler \<Rightarrow> handler \<times> session \<times> event list" where
  "handleJoinRoom w m fresh sess st =
     (case map_of (rooms st) (roomCode m) of
        None \<Rightarrow> (st, sess, [Send w (Error ''Room not found'')])
      | Some r0 \<Rightarrow>
          (let userId = fresh;
               roomId = roomCode m;
               r = addUser userId (userName m) r0;
               st1 = st\<lparr>rooms := AList.update roomId r (rooms st)\<rparr>;
               st2 = st1\<lparr>userConnections := AList.update userId w (userConnections st1)\<rparr>
           in (st2, \<lparr>s_userId = Some userId, s_roomId = Some roomId\<rparr>,
               Send w (RoomJoined roomId userId (toJSON r))
               # broadcastToRoom roomId (UserJoined (map_of (users r) userId) (toJSON r))
                   (Some userId) st2)))"

definition handleAddSong :: "message \<Rightarrow> string \<Rightarrow> string \<Rightarrow> string \<Rightarrow> handler \<Rightarrow> handler \<times> event list" where
  "handleAddSong m userId roomId fresh st =
     (case map_of (rooms st) roomId of
        None \<Rightarrow> (st, [])
      | Some r0 \<Rightarrow>
          (case map_of (users r0) userId of
             None \<Rightarrow> (st, [])
           | Some u \<Rightarrow>
               (let (addedSong, r) = addSong (msong m) (user_name u) fresh r0;
                    st1 = st\<lparr>rooms := AList.update roomId r (rooms st)\<rparr>
                in (st1, broadcastToRoom roomId (SongAdded addedSong (toJSON r)) None st1))))"

definition handleVoteSong :: "ws \<Rightarrow> message \<Rightarrow> string \<Rightarrow> string \<Rightarrow> handler \<Rightarrow> handler \<times> event list" where
  "handleVoteSong w m userId roomId st =
     (case map_of (rooms st) roomId of
        None \<Rightarrow> (st, [Send w (Error ''Room not found'')])
      | Some r0 \<Rightarrow>
          (let (success, r) = voteSong (songId m) userId r0;
               st1 = st\<lparr>rooms := AList.update roomId r (rooms st)\<rparr>
           in if success
              then (st1, broadcastToRoom roomId (SongVoted (songId m) userId (toJSON r)) None st1)
              else (st1, [Send w (Error ''Already voted for this song'')])))"

definition handleSkipSong :: "ws \<Rightarrow> message \<Rightarrow> string \<Rightarrow> string \<Rightarrow> handler \<Rightarrow> handler \<times> event list" where
  "handleSkipSong w m userId roomId st =
     (case map_of (rooms st) roomId of
        None \<Rightarrow> (st, [Send w (Error ''Only host can skip songs'')])
      | Some r0 \<Rightarrow>
          if hostId r0 \<noteq> userId
          then (st, [Send w (Error ''Only host can skip songs'')])
          else
            (let (skippedSong, r) = skipCurrentSong r0;
                 st1 = st\<lparr>rooms := AList.update roomId r (rooms st)\<rparr>
             in case skippedSong of
                  None \<Rightarrow> (st1, [])
                | Some s \<Rightarrow> (st1, broadcastToRoom roomId (SongSkipped s (toJSON r)) None st1)))"

definition handleClearQueue :: "ws \<Rightarrow> message \<Rightarrow> string \<Rightarrow> string \<Rightarrow> handler \<Rightarrow> handler \<times> event list" where
  "handleClearQueue w m userId roomId st =
     (case map_of (rooms st) roomId of
        None \<Rightarrow> (st, [Send w (Error ''Only host can clear queue'')])
      | Some r0 \<Rightarrow>
          if hostId r0 \<noteq> userId
          then (st, [Send w (Error ''Only host can clear queue'')])
          else
            (let r = clearQueue r0;
                 st1 = st\<lparr>rooms := AList.update roomId r (rooms st)\<rparr>
             in (st1, broadcastToRoom roomId (QueueCleared (toJSON r)) None st1)))"

definition handleGetRoomState :: "ws \<Rightarrow> message \<Rightarrow> string \<Rightarrow> handler \<Rightarrow> handler \<times> event list" where
  "handleGetRoomState w m roomId st =
     (case map_of (rooms st) roomId of
        None \<Rightarrow> (st, [Send w (Error ''Room not found'')])
      | Some r \<Rightarrow> (st, [Send w (RoomState (toJSON r))]))"

definition handleUserLeave :: "string \<Rightarrow> string \<Rightarrow> handler \<Rightarrow> handler \<times> event list" where
  "handleUserLeave userId roomId st =
     (case map_of (rooms st) roomId of
        None \<Rightarrow> (st, [])
      | Some r0 \<Rightarrow>
          (let u = map_of (users r0) userId;
               (newHost, r) = removeUser userId r0;
               st1 = st\<lparr>rooms := AList.update roomId r (rooms st)\<rparr>;
               st2 = st1\<lparr>userConnections := AList.delete userId (userConnections st1)\<rparr>
           in if users r = []
              then (st2\<lparr>rooms := AList.delete roomId (rooms st2)\<rparr>, [])
              else (st2, broadcastToRoom roomId
                           (UserLeft userId (map_option user_name u) newHost (toJSON r))
                           None st2)))"

subsection \<open>Dispatch\<close>

text \<open>
  The guard \<^verbatim>\<open>if (userId && roomId)\<close> of the session-scoped cases: it passes when both
  variables are truthy, and the handler then receives their values.
\<close>

definition session_ids :: "session \<Rightarrow> (string \<times> string) option" where
  "session_ids sess =
     (case s_userId sess of
        None \<Rightarrow> None
      | Some u \<Rightarrow>
          (case s_roomId sess of
             None \<Rightarrow> None
           | Some r \<Rightarrow>
               if truthy (Some u) \<and> truthy (Some r) then Some (u, r) else None))"

definition keep_session :: "session \<Rightarrow> handler \<times> event list \<Rightarrow> handler \<times> session \<times> event list" where
  "keep_session sess res = (fst res, sess, snd res)"

text \<open>
  The body of the \<^verbatim>\<open>try\<close> block of the message callback: \<^verbatim>\<open>JSON.parse\<close> throws on
  a payload that is not JSON, reading \<^verbatim>\<open>message.type\<close> throws a TypeError on
  \<^verbatim>\<open>null\<close>, and the \<^verbatim>\<open>switch\<close> on \<^verbatim>\<open>message.type\<close> follows.
\<close>

definition try_body ::
  "ws \<Rightarrow> string \<Rightarrow> int \<Rightarrow> frame \<Rightarrow> session \<Rightarrow> handler \<Rightarrow> exn + (handler \<times> session \<times> event list)" where
  "try_body w fresh now d sess st =
     (case JSON_parse d of
        Inl e \<Rightarrow> Inl e
      | Inr None \<Rightarrow> Inl TypeError
      | Inr (Some m) \<Rightarrow> Inr
         (if mtype m = ''join_room'' then handleJoinRoom w m fresh sess st
          else if mtype m = ''create_room'' then handleCreateRoom w m fresh now sess st
          else if mtype m = ''add_song'' then
            (case session_ids sess of
               None \<Rightarrow> (st, sess, [])
             | Some (u, r) \<Rightarrow> keep_session sess (handleAddSong m u r fresh st))
          else if mtype m = ''vote_song'' then
            (case session_ids sess of
               None \<Rightarrow> (st, sess, [])
             | Some (u, r) \<Rightarrow> keep_session sess (handleVoteSong w m u r st))
          else if mtype m = ''skip_song'' then
            (case session_ids sess of
               None \<Rightarrow> (st, sess, [])
             | Some (u, r) \<Rightarrow> keep_session sess (handleSkipSong w m u r st))
          else if mtype m = ''clear_queue'' then
            (case session_ids sess of
               None \<Rightarrow> (st, sess, [])
             | Some (u, r) \<Rightarrow> keep_session sess (handleClearQueue w m u r st))
          else if mtype m = ''get_room_state'' then
            (case session_ids sess of
               None \<Rightarrow> (st, sess, [])
             | Some (u, r) \<Rightarrow> keep_session sess (handleGetRoomState w m r st))
          else if mtype m = ''ping'' then (st, sess, [Send w Pong])
          else (st, sess, [Send w (Error ''Unknown message type'')])))"

definition on_message ::
  "ws \<Rightarrow> string \<Rightarrow> int \<Rightarrow> frame \<Rightarrow> session \<Rightarrow> handler \<Rightarrow> handler \<times> session \<times> event list" where
  \<comment> \<open>The \<^verbatim>\<open>'message'\<close> callback of handleConnection: the try block and its catch.\<close>
  "on_message w fresh now d sess st =
     (case try_body w fresh now d sess st of
        Inl e \<Rightarrow> (st, sess, [Send w (Error ''Invalid message format'')])
      | Inr res \<Rightarrow> res)"

definition on_close :: "session \<Rightarrow> handler \<Rightarrow> handler \<times> event list" where
  \<comment> \<open>The \<^verbatim>\<open>'close'\<close> callback of handleConnection.\<close>
  "on_close sess st =
     (case session_ids sess of
        None \<Rightarrow> (st, [])
      | Some (u, r) \<Rightarrow> handleUserLeave u r st)"

subsection \<open>Counters, sweep and shutdown\<close>

definition getRoomsCount :: "handler \<Rightarrow> nat" where
  "getRoomsCount st = length (rooms st)"

definition getUsersCount :: "handler \<Rightarrow> nat" where
  "getUsersCount st = length (userConnections st)"

fun cleanupLoop :: "int \<Rightarrow> (string \<times> room) list \<Rightarrow> (string \<times> room) list \<Rightarrow> (string \<times> room) list" where
  \<comment> \<open>The \<^verbatim>\<open>for ... of this.rooms.entries()\<close> loop: the first list is what the iterator
     has still to visit, the second the Map as the deletions so far have left it.\<close>
  "cleanupLoop oneHourAgo [] rs = rs"
| "cleanupLoop oneHourAgo ((roomId, r) # es) rs =
     cleanupLoop oneHourAgo es
       (if users r = [] \<and> createdAt r < oneHourAgo then AList.delete roomId rs else rs)"

definition cleanupEmptyRooms :: "int \<Rightarrow> handler \<Rightarrow> handler" where
  "cleanupEmptyRooms now st =
     (let oneHourAgo = now - 60 * 60 * 1000
      in st\<lparr>rooms := cleanupLoop oneHourAgo (rooms st) (rooms st)\<rparr>)"

fun shutdownLoop :: "(string \<times> ws) list \<Rightarrow> (ws \<Rightarrow> ready_state) \<Rightarrow> (ws \<Rightarrow> ready_state) \<times> event list" where
  "shutdownLoop [] rs = (rs, [])"
| "shutdownLoop ((uid, w) # cs) rs =
     (if rs w = OPEN
      then (let (rs', ev) = shutdownLoop cs (rs(w := CLOSING))
            in (rs', Send w (ServerShutdown ''Server is shutting down'') # Close w # ev))
      else shutdownLoop cs rs)"

definition shutdown :: "handler \<Rightarrow> handler \<times> event list" where
  "shutdown st =
     (let (rs', ev) = shutdownLoop (userConnections st) (readyState st)
      in (st\<lparr>readyState := rs'\<rparr>, ev))"

section \<open>Scenario data\<close>

text \<open>
  The room of the end-to-end scenarios: Alice (host) and Bob in \<^verbatim>\<open>ROOM1\<close> with one
  song in the queue, both connections open.
\<close>

definition alice :: user where
  "alice = \<lparr>user_id = ''u1'', user_name = ''Alice'', isHost = True\<rparr>"

definition bob :: user where
  "bob = \<lparr>user_id = ''u2'', user_name = ''Bob'', isHost = False\<rparr>"

definition song1 :: song where
  "song1 = \<lparr>song_id = ''s1'', title = ''T'', artist = ''A'', uri = ''U'',
            addedBy = ''Bob'', votedBy = [''u1'']\<rparr>"

definition room1 :: room where
  "room1 = \<lparr>room_id = ''ROOM1'', hostId = ''u1'',
            users = [(''u1'', alice), (''u2'', bob)], queue = [song1], createdAt = 0\<rparr>"

definition server1 :: handler where
  "server1 = \<lparr>rooms = [(''ROOM1'', room1)],
              userConnections = [(''u1'', 1), (''u2'', 2)],
              readyState = (\<lambda>w. OPEN)\<rparr>"

definition unbound :: session where
  "unbound = \<lparr>s_userId = None, s_roomId = None\<rparr>"

definition alice_session :: session where
  "alice_session = \<lparr>s_userId = Some ''u1'', s_roomId = Some ''ROOM1''\<rparr>"

definition bob_session :: session where
  "bob_session = \<lparr>s_userId = Some ''u2'', s_roomId = Some ''ROOM1''\<rparr>"

text \<open>The same room and server with an empty queue.\<close>

definition room2 :: room where
  "room2 = room1\<lparr>queue := []\<rparr>"

definition server2 :: handler where
  "server2 = server1\<lparr>rooms := [(''ROOM1'', room2)]\<rparr>"

text \<open>The room and server after Alice has left: Bob alone, now host.\<close>

definition room3 :: room where
  "room3 = \<lparr>room_id = ''ROOM1'', hostId = ''u2'',
            users = [(''u2'', bob\<lparr>isHost := True\<rparr>)], queue = [song1], createdAt = 0\<rparr>"

definition server3 :: handler where
  "server3 = \<lparr>rooms = [(''ROOM1'', room3)], userConnections = [(''u2'', 2)],
              readyState = (\<lambda>w. OPEN)\<rparr>"

text \<open>
  A store for the sweep, at time 4000000 ms: an empty room created at 0 (older than one
  hour), an empty room created at 3000000 (younger), and the occupied scenario room.
\<close>

definition stale :: room where
  "stale = \<lparr>room_id = ''OLD'', hostId = ''u7'', users = [], queue = [], createdAt = 0\<rparr>"

definition recent :: room where
  "recent = \<lparr>room_id = ''NEW'', hostId = ''u8'', users = [], queue = [], createdAt = 3000000\<rparr>"

definition server4 :: handler where
  "server4 = \<lparr>rooms = [(''OLD'', stale), (''ROOM1'', room1), (''NEW'', recent)],
              userConnections = [(''u1'', 1), (''u2'', 2)],
              readyState = (\<lambda>w. OPEN)\<rparr>"

definition request :: "string \<Rightarrow> message" where
  "request t = \<lparr>mtype = t, userName = ''Carol'', roomCode = ''ROOM1'',
            msong = \<lparr>in_title = ''T2'', in_artist = ''A2'', in_uri = ''U2''\<rparr>,
            songId = ''s1''\<rparr>"

text \<open>
  A run from the empty server in which the room code is the empty string. Alice, on
  socket 1, creates the room; Bob, on socket 2, joins it. The states and sessions are
  the ones the message callback returns.
\<close>

definition server0 :: handler where
  "server0 = \<lparr>rooms = [], userConnections = [], readyState = (\<lambda>w. OPEN)\<rparr>"

definition blank_request :: "string \<Rightarrow> string \<Rightarrow> message" where
  "blank_request t n = \<lparr>mtype = t, userName = n, roomCode = [],
            msong = \<lparr>in_title = ''T2'', in_artist = ''A2'', in_uri = ''U2''\<rparr>,
            songId = ''s9''\<rparr>"

definition blank1 :: handler where
  "blank1 = fst (on_message 1 ''u1'' 0 (Wellformed (blank_request ''create_room'' ''Alice''))
                   unbound server0)"

definition blank_alice :: session where
  "blank_alice = fst (snd (on_message 1 ''u1'' 0
                   (Wellformed (blank_request ''create_room'' ''Alice'')) unbound server0))"

definition blank2 :: handler where
  "blank2 = fst (on_message 2 ''u2'' 1 (Wellformed (blank_request ''join_room'' ''Bob''))
                   unbound blank1)"

definition blank_bob :: session where
  "blank_bob = fst (snd (on_message 2 ''u2'' 1
                   (Wellformed (blank_request ''join_room'' ''Bob'')) unbound blank1))"

text \<open>The state after Alice created the room, once her socket has closed.\<close>

definition blank1_closed :: handler where
  "blank1_closed = blank1\<lparr>readyState := (readyState blank1)(1 := CLOSED)\<rparr>"

section \<open>Lemmas on the Maps, the dispatch and the fan-out\<close>

lemma rooms_update_same:
  "map_of (rooms st) k = Some r \<Longrightarrow> st\<lparr>rooms := AList.update k r (rooms st)\<rparr> = st"
  by (simp add: update_triv)

lemma session_ids_None: "s_userId sess = None \<or> s_roomId sess = None \<Longrightarrow> session_ids sess = None"
  by (auto simp: session_ids_def split: option.splits)

lemma session_ids_Some:
  "session_ids sess = Some (u, r) \<longleftrightarrow>
     s_userId sess = Some u \<and> s_roomId sess = Some r \<and> u \<noteq> [] \<and> r \<noteq> []"
  by (auto simp: session_ids_def truthy_def split: option.splits)

lemma dispatch_skip:
  "mtype m = ''skip_song'' \<Longrightarrow> session_ids sess = Some (u, r) \<Longrightarrow>
   on_message w fresh now (Wellformed m) sess st = keep_session sess (handleSkipSong w m u r st)"
  by (simp add: on_message_def try_body_def JSON_parse_def)

lemma dispatch_clear:
  "mtype m = ''clear_queue'' \<Longrightarrow> session_ids sess = Some (u, r) \<Longrightarrow>
   on_message w fresh now (Wellformed m) sess st = keep_session sess (handleClearQueue w m u r st)"
  by (simp add: on_message_def try_body_def JSON_parse_def)

lemma dispatch_vote:
  "mtype m = ''vote_song'' \<Longrightarrow> session_ids sess = Some (u, r) \<Longrightarrow>
   on_message w fresh now (Wellformed m) sess st = keep_session sess (handleVoteSong w m u r st)"
  by (simp add: on_message_def try_body_def JSON_parse_def)

lemma sendTo_excluded: "Some (user_id u) = ex \<Longrightarrow> sendTo st msg ex u = []"
  by (simp add: sendTo_def)

lemma sendTo_included:
  "Some (user_id u) \<noteq> ex \<Longrightarrow>
   sendTo st msg ex u =
     (case map_of (userConnections st) (user_id u) of
        None \<Rightarrow> []
      | Some c \<Rightarrow> if readyState st c = OPEN then [Send c msg] else [])"
  by (simp add: sendTo_def)

lemma sendTo_iff:
  "e \<in> set (sendTo st msg ex u) \<longleftrightarrow>
     (\<exists>c. Some (user_id u) \<noteq> ex \<and> map_of (userConnections st) (user_id u) = Some c
          \<and> readyState st c = OPEN \<and> e = Send c msg)"
proof (cases "Some (user_id u) = ex")
  case True
  then show ?thesis by (simp add: sendTo_excluded)
next
  case False
  then show ?thesis
    by (cases "map_of (userConnections st) (user_id u)") (auto simp: sendTo_included)
qed

text \<open>
  Who receives a broadcast: the members of the addressed room, in the order of the
  \<^verbatim>\<open>users\<close> Map, other than the excluded one, whose id has a registered socket in
  state OPEN; each of them gets the message, and nobody else gets anything.
\<close>

lemma broadcastToRoom_iff:
  assumes "map_of (rooms st) roomId = Some r"
  shows "e \<in> set (broadcastToRoom roomId msg ex st) \<longleftrightarrow>
         (\<exists>k u c. (k, u) \<in> set (users r) \<and> Some (user_id u) \<noteq> ex
                  \<and> map_of (userConnections st) (user_id u) = Some c
                  \<and> readyState st c = OPEN \<and> e = Send c msg)"
proof -
  have "e \<in> set (broadcastToRoom roomId msg ex st) \<longleftrightarrow>
        (\<exists>p\<in>set (users r). e \<in> set (sendTo st msg ex (snd p)))"
    using assms by (auto simp: broadcastToRoom_def case_prod_unfold)
  also have "\<dots> \<longleftrightarrow> (\<exists>k u. (k, u) \<in> set (users r) \<and> e \<in> set (sendTo st msg ex u))"
    by force
  finally show ?thesis
    unfolding sendTo_iff by blast
qed

section \<open>Session-scoped messages on an unbound connection\<close>

text \<open>
  Claim C4. An \<^verbatim>\<open>add_song\<close>, \<^verbatim>\<open>vote_song\<close>, \<^verbatim>\<open>skip_song\<close>, \<^verbatim>\<open>clear_queue\<close> or
  \<^verbatim>\<open>get_room_state\<close> message on a connection whose session variables are unset is
  ignored: nothing is sent, neither a reply nor an error, and neither the handler state
  nor the session changes.
\<close>

theorem unbound_session_ignored:
  assumes "s_userId sess = None \<or> s_roomId sess = None"
    and "mtype m \<in> {''add_song'', ''vote_song'', ''skip_song'', ''clear_queue'', ''get_room_state''}"
  shows "on_message w fresh now (Wellformed m) sess st = (st, sess, [])"
  using assms(2) session_ids_None [OF assms(1)]
  by (auto simp: on_message_def try_body_def JSON_parse_def)

theorem unbound_session_ignored_witness:
  "(s_userId unbound = None \<or> s_roomId unbound = None)
   \<and> mtype (request ''skip_song'') \<in> {''add_song'', ''vote_song'', ''skip_song'', ''clear_queue'', ''get_room_state''}
   \<and> on_message 3 ''u3'' 7 (Wellformed (request ''skip_song'')) unbound server1 = (server1, unbound, [])"
  using unbound_session_ignored [of unbound "request ''skip_song''" 3 "''u3''" 7 server1]
  by (simp add: unbound_def request_def)

section \<open>Malformed frames and unknown message types\<close>

text \<open>
  Claim C7. The message callback returns normally on every frame. A payload that
  \<^verbatim>\<open>JSON.parse\<close> rejects (and likewise the payload \<^verbatim>\<open>null\<close>, whose type cannot
  be read) is answered by the catch block with one
  \<^verbatim>\<open>Invalid message format\<close> error to the caller; a parsed message whose type is none
  of the eight known ones is answered with one \<^verbatim>\<open>Unknown message type\<close> error to
  the caller. In both cases the handler state (rooms, registered connections, socket
  states) and the session are unchanged, the socket is not closed and nothing is sent to
  anybody else.
\<close>

theorem malformed_or_unknown:
  "on_message w fresh now Malformed sess st
     = (st, sess, [Send w (Error ''Invalid message format'')])
   \<and> on_message w fresh now JsonNull sess st
     = (st, sess, [Send w (Error ''Invalid message format'')])
   \<and> (mtype m \<notin> {''join_room'', ''create_room'', ''add_song'', ''vote_song'', ''skip_song'',
                  ''clear_queue'', ''get_room_state'', ''ping''}
      \<longrightarrow> on_message w fresh now (Wellformed m) sess st
            = (st, sess, [Send w (Error ''Unknown message type'')]))"
  by (simp add: on_message_def try_body_def JSON_parse_def)

theorem malformed_or_unknown_witness:
  "mtype (request ''dance'') \<notin> {''join_room'', ''create_room'', ''add_song'', ''vote_song'',
      ''skip_song'', ''clear_queue'', ''get_room_state'', ''ping''}
   \<and> on_message 2 ''u3'' 7 (Wellformed (request ''dance'')) bob_session server1
       = (server1, bob_session, [Send 2 (Error ''Unknown message type'')])
   \<and> on_message 2 ''u3'' 7 Malformed bob_session server1
       = (server1, bob_session, [Send 2 (Error ''Invalid message format'')])"
  using malformed_or_unknown [of 2 "''u3''" 7 bob_session server1 "request ''dance''"]
  by (simp add: request_def)

section \<open>Host-only operations\<close>

lemma handleSkipSong_reject:
  assumes "map_of (rooms st) roomId = None \<or> (\<exists>r. map_of (rooms st) roomId = Some r \<and> hostId r \<noteq> userId)"
  shows "handleSkipSong w m userId roomId st = (st, [Send w (Error ''Only host can skip songs'')])"
  using assms by (auto simp: handleSkipSong_def)

lemma handleClearQueue_reject:
  assumes "map_of (rooms st) roomId = None \<or> (\<exists>r. map_of (rooms st) roomId = Some r \<and> hostId r \<noteq> userId)"
  shows "handleClearQueue w m userId roomId st = (st, [Send w (Error ''Only host can clear queue'')])"
  using assms by (auto simp: handleClearQueue_def)

text \<open>
  Rejection by the handlers. A \<^verbatim>\<open>skip_song\<close> or \<^verbatim>\<open>clear_queue\<close> for a room that is absent from the
  store, or whose \<^verbatim>\<open>hostId\<close> differs from the caller's user id, leaves the whole
  handler state as it was (the queue and every other field of every room), emits no
  broadcast, and sends exactly one error to the calling socket. This holds of the two
  handlers for all arguments, and of the message callback whenever its guard
  \<^verbatim>\<open>userId && roomId\<close> passes these ids on. (The guard reads a session whose room
  code is the empty string as unset, and then drops the message without a reply.)
\<close>

lemma non_host_skip_clear_rejected:
  assumes "map_of (rooms st) roomId = None
           \<or> (\<exists>r. map_of (rooms st) roomId = Some r \<and> hostId r \<noteq> userId)"
  shows "handleSkipSong w m userId roomId st
           = (st, [Send w (Error ''Only host can skip songs'')])
       \<and> handleClearQueue w m userId roomId st
           = (st, [Send w (Error ''Only host can clear queue'')])
       \<and> (session_ids sess = Some (userId, roomId) \<longrightarrow>
            (mtype m = ''skip_song'' \<longrightarrow>
               on_message w fresh now (Wellformed m) sess st
                 = (st, sess, [Send w (Error ''Only host can skip songs'')]))
          \<and> (mtype m = ''clear_queue'' \<longrightarrow>
               on_message w fresh now (Wellformed m) sess st
                 = (st, sess, [Send w (Error ''Only host can clear queue'')])))"
  by (simp add: handleSkipSong_reject [OF assms] handleClearQueue_reject [OF assms]
      dispatch_skip dispatch_clear keep_session_def)

lemma non_host_skip_clear_rejected_witness:
  "(map_of (rooms server1) ''ROOM1'' = None
      \<or> (\<exists>r. map_of (rooms server1) ''ROOM1'' = Some r \<and> hostId r \<noteq> ''u2''))
   \<and> session_ids bob_session = Some (''u2'', ''ROOM1'')
   \<and> on_message 2 ''u3'' 7 (Wellformed (request ''skip_song'')) bob_session server1
       = (server1, bob_session, [Send 2 (Error ''Only host can skip songs'')])
   \<and> handleClearQueue 2 (request ''clear_queue'') ''u2'' ''ROOM1'' server1
       = (server1, [Send 2 (Error ''Only host can clear queue'')])"
proof -
  have h: "map_of (rooms server1) ''ROOM1'' = None
      \<or> (\<exists>r. map_of (rooms server1) ''ROOM1'' = Some r \<and> hostId r \<noteq> ''u2'')"
    by (simp add: server1_def room1_def)
  have b: "session_ids bob_session = Some (''u2'', ''ROOM1'')"
    by (simp add: session_ids_Some bob_session_def)
  have t: "mtype (request ''skip_song'') = ''skip_song''"
    by (simp add: request_def)
  from non_host_skip_clear_rejected [OF h, of 2 "request ''skip_song''" bob_session "''u3''" 7]
       non_host_skip_clear_rejected [OF h, of 2 "request ''clear_queue''"]
       h b t
  show ?thesis by simp
qed

lemma skipCurrentSong_empty: "queue r = [] \<Longrightarrow> skipCurrentSong r = (None, r)"
  by (simp add: skipCurrentSong_def rankedQueue_def)

lemma handleSkipSong_empty:
  assumes "map_of (rooms st) roomId = Some r" "hostId r = userId" "queue r = []"
  shows "handleSkipSong w m userId roomId st = (st, [])"
  using assms by (simp add: handleSkipSong_def skipCurrentSong_empty rooms_update_same)

text \<open>
  Claim C9. A \<^verbatim>\<open>skip_song\<close> from the host of a registered room whose queue is empty
  (\<^verbatim>\<open>skipCurrentSong\<close> returns none) does nothing that can be observed: the handler
  sends no reply and no broadcast and the state is as before. The same holds of the
  message callback for a session holding the host's ids.
\<close>

theorem host_skip_empty_queue_noop:
  assumes "map_of (rooms st) roomId = Some r" and "hostId r = userId" and "queue r = []"
  shows "fst (skipCurrentSong r) = None
       \<and> handleSkipSong w m userId roomId st = (st, [])
       \<and> (mtype m = ''skip_song'' \<and> s_userId sess = Some userId \<and> s_roomId sess = Some roomId
          \<longrightarrow> on_message w fresh now (Wellformed m) sess st = (st, sess, []))"
proof -
  have h: "handleSkipSong w m userId roomId st = (st, [])"
    using assms by (rule handleSkipSong_empty)
  have "on_message w fresh now (Wellformed m) sess st = (st, sess, [])"
    if "mtype m = ''skip_song''" "s_userId sess = Some userId" "s_roomId sess = Some roomId"
  proof (cases "session_ids sess")
    case None
    with that(1) show ?thesis
      by (simp add: on_message_def try_body_def JSON_parse_def)
  next
    case (Some p)
    with that have "p = (userId, roomId)"
      by (cases p) (simp add: session_ids_Some)
    with Some that(1) h show ?thesis
      by (simp add: dispatch_skip keep_session_def)
  qed
  with h assms(3) show ?thesis
    by (simp add: skipCurrentSong_empty)
qed

theorem host_skip_empty_queue_noop_witness:
  "map_of (rooms server2) ''ROOM1'' = Some room2 \<and> hostId room2 = ''u1'' \<and> queue room2 = []
   \<and> mtype (request ''skip_song'') = ''skip_song''
   \<and> s_userId alice_session = Some ''u1'' \<and> s_roomId alice_session = Some ''ROOM1''
   \<and> on_message 1 ''u3'' 7 (Wellformed (request ''skip_song'')) alice_session server2
       = (server2, alice_session, [])"
proof -
  have h: "map_of (rooms server2) ''ROOM1'' = Some room2" "hostId room2 = ''u1''" "queue room2 = []"
    by (simp_all add: server2_def room2_def room1_def)
  have t: "mtype (request ''skip_song'') = ''skip_song''"
    "s_userId alice_session = Some ''u1''" "s_roomId alice_session = Some ''ROOM1''"
    by (simp_all add: request_def alice_session_def)
  from host_skip_empty_queue_noop [OF h, of 1 "request ''skip_song''" alice_session "''u3''" 7] h t
  show ?thesis by simp
qed

section \<open>Votes\<close>

lemma voteQueue_None_iff:
  "voteQueue sid uid q = None \<longleftrightarrow>
     (case find (\<lambda>s. song_id s = sid) q of None \<Rightarrow> True | Some s \<Rightarrow> uid \<in> set (votedBy s))"
  by (induction q) auto

lemma find_None_song: "find (\<lambda>s. song_id s = sid) q = None \<longleftrightarrow> (\<forall>s\<in>set q. song_id s \<noteq> sid)"
  by (auto simp: find_None_iff)

text \<open>The two ways a vote fails, and no other: no song of that id, or a vote already cast.\<close>

lemma voteSong_fails_iff:
  "\<not> fst (voteSong sid uid r) \<longleftrightarrow>
     (\<forall>s\<in>set (queue r). song_id s \<noteq> sid)
     \<or> (\<exists>s. find (\<lambda>s. song_id s = sid) (queue r) = Some s \<and> uid \<in> set (votedBy s))"
proof -
  have "\<not> fst (voteSong sid uid r) \<longleftrightarrow> voteQueue sid uid (queue r) = None"
    by (simp add: voteSong_def split: option.splits)
  also have "\<dots> \<longleftrightarrow> find (\<lambda>s. song_id s = sid) (queue r) = None
      \<or> (\<exists>s. find (\<lambda>s. song_id s = sid) (queue r) = Some s \<and> uid \<in> set (votedBy s))"
    by (simp add: voteQueue_None_iff split: option.splits)
  finally show ?thesis
    by (simp only: find_None_song)
qed

lemma voteSong_fail_room: "\<not> fst (voteSong sid uid r) \<Longrightarrow> snd (voteSong sid uid r) = r"
  by (auto simp: voteSong_def split: option.splits)

lemma voteSong_users: "users (snd (voteSong sid uid r)) = users r"
  by (auto simp: voteSong_def split: option.splits)

lemma handleVoteSong_fail:
  assumes "map_of (rooms st) roomId = Some r" and "\<not> fst (voteSong (songId m) userId r)"
  shows "handleVoteSong w m userId roomId st = (st, [Send w (Error ''Already voted for this song'')])"
  using assms voteSong_fail_room [OF assms(2)]
  by (simp add: handleVoteSong_def case_prod_unfold rooms_update_same)

lemma handleVoteSong_success:
  assumes "map_of (rooms st) roomId = Some r" and "fst (voteSong (songId m) userId r)"
  shows "handleVoteSong w m userId roomId st =
           (st\<lparr>rooms := AList.update roomId (snd (voteSong (songId m) userId r)) (rooms st)\<rparr>,
            broadcastToRoom roomId
              (SongVoted (songId m) userId (toJSON (snd (voteSong (songId m) userId r)))) None
              (st\<lparr>rooms := AList.update roomId (snd (voteSong (songId m) userId r)) (rooms st)\<rparr>))"
  using assms by (simp add: handleVoteSong_def case_prod_unfold Let_def)

text \<open>
  Claim C10. In a registered room a vote fails exactly when no song of the queue has the
  given id or the first song of that id already carries the caller's vote. In either
  case the handler's reply to the caller is the one error with the text
  \<^verbatim>\<open>Already voted for this song\<close>, and the state is unchanged: the reply does not tell
  the two causes apart.
\<close>

theorem failed_vote_reply_text:
  assumes "map_of (rooms st) roomId = Some r"
  shows "(\<not> fst (voteSong (songId m) userId r) \<longleftrightarrow>
            (\<forall>s\<in>set (queue r). song_id s \<noteq> songId m)
            \<or> (\<exists>s. find (\<lambda>s. song_id s = songId m) (queue r) = Some s \<and> userId \<in> set (votedBy s)))
       \<and> ((\<forall>s\<in>set (queue r). song_id s \<noteq> songId m) \<longrightarrow>
            handleVoteSong w m userId roomId st
              = (st, [Send w (Error ''Already voted for this song'')]))
       \<and> ((\<exists>s. find (\<lambda>s. song_id s = songId m) (queue r) = Some s \<and> userId \<in> set (votedBy s)) \<longrightarrow>
            handleVoteSong w m userId roomId st
              = (st, [Send w (Error ''Already voted for this song'')]))"
  using handleVoteSong_fail [OF assms, of m userId w] voteSong_fails_iff [of "songId m" userId r]
  by blast

theorem failed_vote_reply_text_witness:
  "map_of (rooms server1) ''ROOM1'' = Some room1
   \<and> find (\<lambda>s. song_id s = songId (request ''vote_song'')) (queue room1) = Some song1
   \<and> ''u1'' \<in> set (votedBy song1)
   \<and> handleVoteSong 1 (request ''vote_song'') ''u1'' ''ROOM1'' server1
       = (server1, [Send 1 (Error ''Already voted for this song'')])
   \<and> find (\<lambda>s. song_id s = songId ((request ''vote_song'')\<lparr>songId := ''s9''\<rparr>)) (queue room1) = None
   \<and> handleVoteSong 1 ((request ''vote_song'')\<lparr>songId := ''s9''\<rparr>) ''u1'' ''ROOM1'' server1
       = (server1, [Send 1 (Error ''Already voted for this song'')])"
proof -
  have h: "map_of (rooms server1) ''ROOM1'' = Some room1"
    by (simp add: server1_def)
  have dup: "\<exists>s. find (\<lambda>s. song_id s = songId (request ''vote_song'')) (queue room1) = Some s
          \<and> ''u1'' \<in> set (votedBy s)"
    by (simp add: request_def room1_def song1_def)
  have absent: "\<forall>s\<in>set (queue room1). song_id s \<noteq> songId ((request ''vote_song'')\<lparr>songId := ''s9''\<rparr>)"
    by (simp add: request_def room1_def song1_def)
  have f1: "find (\<lambda>s. song_id s = songId (request ''vote_song'')) (queue room1) = Some song1"
      "''u1'' \<in> set (votedBy song1)"
    by (simp_all add: request_def room1_def song1_def)
  have f2: "find (\<lambda>s. song_id s = songId ((request ''vote_song'')\<lparr>songId := ''s9''\<rparr>)) (queue room1) = None"
    by (simp add: request_def room1_def song1_def)
  from failed_vote_reply_text [OF h, of "request ''vote_song''" "''u1''" 1]
       failed_vote_reply_text [OF h, of "(request ''vote_song'')\<lparr>songId := ''s9''\<rparr>" "''u1''" 1]
       h dup absent f1 f2
  show ?thesis by blast
qed

text \<open>
  The vote handler. For a \<^verbatim>\<open>vote_song\<close> on a registered room: when \<^verbatim>\<open>voteSong\<close> succeeds
  the room is stored with the vote added and the events are the broadcast of
  \<^verbatim>\<open>song_voted\<close> (song id, user id, snapshot of the updated room) with nobody
  excluded, so every member with a registered open socket gets it, the sender included,
  and nothing else is sent; when it fails, for either cause, the state is unchanged and
  the only event is one error to the caller. The message callback does exactly this
  whenever its guard \<^verbatim>\<open>userId && roomId\<close> passes.
\<close>

lemma vote_song_broadcast_or_error:
  assumes "map_of (rooms st) roomId = Some r"
  shows "(fst (voteSong (songId m) userId r) \<longrightarrow>
            (let r' = snd (voteSong (songId m) userId r);
                 st' = st\<lparr>rooms := AList.update roomId r' (rooms st)\<rparr>;
                 voted = SongVoted (songId m) userId (toJSON r')
             in handleVoteSong w m userId roomId st = (st', broadcastToRoom roomId voted None st')
                \<and> (\<forall>e. e \<in> set (snd (handleVoteSong w m userId roomId st)) \<longleftrightarrow>
                       (\<exists>k u c. (k, u) \<in> set (users r)
                          \<and> map_of (userConnections st) (user_id u) = Some c
                          \<and> readyState st c = OPEN \<and> e = Send c voted))))
       \<and> (\<not> fst (voteSong (songId m) userId r) \<longrightarrow>
            handleVoteSong w m userId roomId st
              = (st, [Send w (Error ''Already voted for this song'')]))
       \<and> (mtype m = ''vote_song'' \<and> session_ids sess = Some (userId, roomId) \<longrightarrow>
            on_message w fresh now (Wellformed m) sess st
              = (fst (handleVoteSong w m userId roomId st), sess,
                 snd (handleVoteSong w m userId roomId st)))"
proof -
  let ?r' = "snd (voteSong (songId m) userId r)"
  let ?st' = "st\<lparr>rooms := AList.update roomId ?r' (rooms st)\<rparr>"
  have room': "map_of (rooms ?st') roomId = Some ?r'"
    by (simp add: update_conv')
  have a: ?thesis if "\<not> fst (voteSong (songId m) userId r)"
    using that handleVoteSong_fail [OF assms that, of w]
    by (simp add: dispatch_vote keep_session_def)
  have b: ?thesis if ok: "fst (voteSong (songId m) userId r)"
    using ok handleVoteSong_success [OF assms ok, of w]
      broadcastToRoom_iff [OF room', of _ _ None]
    by (simp add: Let_def voteSong_users dispatch_vote keep_session_def)
  from a b show ?thesis by blast
qed

lemma vote_song_broadcast_or_error_witness:
  "map_of (rooms server1) ''ROOM1'' = Some room1
   \<and> fst (voteSong (songId (request ''vote_song'')) ''u2'' room1)
   \<and> mtype (request ''vote_song'') = ''vote_song''
   \<and> session_ids bob_session = Some (''u2'', ''ROOM1'')
   \<and> snd (snd (on_message 2 ''u3'' 7 (Wellformed (request ''vote_song'')) bob_session server1))
       = [Send 1 (SongVoted ''s1'' ''u2'' (toJSON (room1\<lparr>queue := [song1\<lparr>votedBy := [''u1'', ''u2'']\<rparr>]\<rparr>))),
          Send 2 (SongVoted ''s1'' ''u2'' (toJSON (room1\<lparr>queue := [song1\<lparr>votedBy := [''u1'', ''u2'']\<rparr>]\<rparr>)))]
   \<and> \<not> fst (voteSong (songId (request ''vote_song'')) ''u1'' room1)
   \<and> handleVoteSong 1 (request ''vote_song'') ''u1'' ''ROOM1'' server1
       = (server1, [Send 1 (Error ''Already voted for this song'')])"
proof -
  have h: "map_of (rooms server1) ''ROOM1'' = Some room1"
    by (simp add: server1_def)
  have v: "voteSong (songId (request ''vote_song'')) ''u2'' room1
             = (True, room1\<lparr>queue := [song1\<lparr>votedBy := [''u1'', ''u2'']\<rparr>]\<rparr>)"
    by (simp add: voteSong_def request_def room1_def song1_def)
  have f: "\<not> fst (voteSong (songId (request ''vote_song'')) ''u1'' room1)"
    by (simp add: voteSong_def request_def room1_def song1_def)
  have t: "mtype (request ''vote_song'') = ''vote_song''" "songId (request ''vote_song'') = ''s1''"
    by (simp_all add: request_def)
  have b: "session_ids bob_session = Some (''u2'', ''ROOM1'')"
    by (simp add: session_ids_Some bob_session_def)
  have bc: "broadcastToRoom ''ROOM1'' x None
              (server1\<lparr>rooms := AList.update ''ROOM1''
                  (room1\<lparr>queue := [song1\<lparr>votedBy := [''u1'', ''u2'']\<rparr>]\<rparr>) (rooms server1)\<rparr>)
            = [Send 1 x, Send 2 x]" for x
    by (simp add: broadcastToRoom_def sendTo_def server1_def room1_def alice_def bob_def)
  from vote_song_broadcast_or_error [OF h, of "request ''vote_song''" "''u2''" 2 bob_session "''u3''" 7]
       vote_song_broadcast_or_error [OF h, of "request ''vote_song''" "''u1''" 1]
       h v f t b bc
  show ?thesis by (simp add: Let_def)
qed

section \<open>Creating and joining rooms\<close>

lemma dispatch_join:
  "mtype m = ''join_room'' \<Longrightarrow>
   on_message w fresh now (Wellformed m) sess st = handleJoinRoom w m fresh sess st"
  by (simp add: on_message_def try_body_def JSON_parse_def)

lemma dispatch_create:
  "mtype m = ''create_room'' \<Longrightarrow>
   on_message w fresh now (Wellformed m) sess st = handleCreateRoom w m fresh now sess st"
  by (simp add: on_message_def try_body_def JSON_parse_def)

lemma addUser_lookup:
  "map_of (users (addUser uid nm r)) uid = Some \<lparr>user_id = uid, user_name = nm, isHost = False\<rparr>"
  by (simp add: addUser_def update_conv')

lemma handleJoinRoom_missing:
  "map_of (rooms st) (roomCode m) = None \<Longrightarrow>
   handleJoinRoom w m fresh sess st = (st, sess, [Send w (Error ''Room not found'')])"
  by (simp add: handleJoinRoom_def)

lemma handleJoinRoom_found:
  assumes "map_of (rooms st) (roomCode m) = Some r0"
  shows "handleJoinRoom w m fresh sess st =
     (st\<lparr>rooms := AList.update (roomCode m) (addUser fresh (userName m) r0) (rooms st),
         userConnections := AList.update fresh w (userConnections st)\<rparr>,
      \<lparr>s_userId = Some fresh, s_roomId = Some (roomCode m)\<rparr>,
      Send w (RoomJoined (roomCode m) fresh (toJSON (addUser fresh (userName m) r0)))
      # broadcastToRoom (roomCode m)
          (UserJoined (Some \<lparr>user_id = fresh, user_name = userName m, isHost = False\<rparr>)
             (toJSON (addUser fresh (userName m) r0)))
          (Some fresh)
          (st\<lparr>rooms := AList.update (roomCode m) (addUser fresh (userName m) r0) (rooms st),
              userConnections := AList.update fresh w (userConnections st)\<rparr>))"
  using assms by (simp add: handleJoinRoom_def Let_def addUser_lookup)

text \<open>
  Claim C6. A \<^verbatim>\<open>join_room\<close> for a code with no registered room changes nothing and
  sends one \<^verbatim>\<open>Room not found\<close> error to the caller. Otherwise the joiner is added to
  the room's users and registered with the calling socket, the session is bound, the
  first event is the \<^verbatim>\<open>room_joined\<close> reply to the caller with the snapshot of the
  room including the joiner, and the remaining events are the broadcast of
  \<^verbatim>\<open>user_joined\<close>: every member other than the joiner whose id has a registered open
  socket is sent it, and nothing else is sent.
\<close>

theorem join_room_reply_and_broadcast:
  assumes "mtype m = ''join_room''"
  shows "(map_of (rooms st) (roomCode m) = None \<longrightarrow>
            on_message w fresh now (Wellformed m) sess st
              = (st, sess, [Send w (Error ''Room not found'')]))
       \<and> (map_of (rooms st) (roomCode m) = Some r0 \<longrightarrow>
            (let r = addUser fresh (userName m) r0;
                 joiner = \<lparr>user_id = fresh, user_name = userName m, isHost = False\<rparr>;
                 st' = st\<lparr>rooms := AList.update (roomCode m) r (rooms st),
                          userConnections := AList.update fresh w (userConnections st)\<rparr>;
                 joined = UserJoined (Some joiner) (toJSON r)
             in on_message w fresh now (Wellformed m) sess st
                  = (st', \<lparr>s_userId = Some fresh, s_roomId = Some (roomCode m)\<rparr>,
                     Send w (RoomJoined (roomCode m) fresh (toJSON r))
                     # broadcastToRoom (roomCode m) joined (Some fresh) st')
                \<and> map_of (rooms st') (roomCode m) = Some r
                \<and> map_of (users r) fresh = Some joiner
                \<and> map_of (userConnections st') fresh = Some w
                \<and> (\<forall>e. e \<in> set (broadcastToRoom (roomCode m) joined (Some fresh) st') \<longleftrightarrow>
                       (\<exists>k u c. (k, u) \<in> set (users r) \<and> user_id u \<noteq> fresh
                          \<and> map_of (userConnections st') (user_id u) = Some c
                          \<and> readyState st c = OPEN \<and> e = Send c joined))))"
proof -
  let ?r = "addUser fresh (userName m) r0"
  let ?st' = "st\<lparr>rooms := AList.update (roomCode m) ?r (rooms st),
                 userConnections := AList.update fresh w (userConnections st)\<rparr>"
  have miss: "on_message w fresh now (Wellformed m) sess st
              = (st, sess, [Send w (Error ''Room not found'')])"
    if "map_of (rooms st) (roomCode m) = None"
    using that assms by (simp add: dispatch_join handleJoinRoom_missing)
  have room': "map_of (rooms ?st') (roomCode m) = Some ?r"
    by (simp add: update_conv')
  have conn': "map_of (userConnections ?st') fresh = Some w"
    by (simp add: update_conv')
  have found: "on_message w fresh now (Wellformed m) sess st
      = (?st', \<lparr>s_userId = Some fresh, s_roomId = Some (roomCode m)\<rparr>,
         Send w (RoomJoined (roomCode m) fresh (toJSON ?r))
         # broadcastToRoom (roomCode m)
             (UserJoined (Some \<lparr>user_id = fresh, user_name = userName m, isHost = False\<rparr>) (toJSON ?r))
             (Some fresh) ?st')"
    if "map_of (rooms st) (roomCode m) = Some r0"
    using assms handleJoinRoom_found [OF that] by (simp add: dispatch_join)
  have rs: "readyState ?st' = readyState st"
    by simp
  have bc: "e \<in> set (broadcastToRoom (roomCode m) x (Some fresh) ?st') \<longleftrightarrow>
       (\<exists>k u c. (k, u) \<in> set (users ?r) \<and> user_id u \<noteq> fresh
          \<and> map_of (userConnections ?st') (user_id u) = Some c
          \<and> readyState st c = OPEN \<and> e = Send c x)" for e x
    unfolding broadcastToRoom_iff [OF room'] rs by simp
  show ?thesis
    unfolding Let_def using miss found room' conn' bc addUser_lookup by blast
qed

theorem join_room_reply_and_broadcast_witness:
  "mtype (request ''join_room'') = ''join_room''
   \<and> map_of (rooms server1) (roomCode (request ''join_room'')) = Some room1
   \<and> on_message 3 ''u3'' 7 (Wellformed (request ''join_room'')) unbound server1
       = (server1\<lparr>rooms := [(''ROOM1'', addUser ''u3'' ''Carol'' room1)],
                  userConnections := [(''u1'', 1), (''u2'', 2), (''u3'', 3)]\<rparr>,
          \<lparr>s_userId = Some ''u3'', s_roomId = Some ''ROOM1''\<rparr>,
          [Send 3 (RoomJoined ''ROOM1'' ''u3'' (toJSON (addUser ''u3'' ''Carol'' room1))),
           Send 1 (UserJoined (Some \<lparr>user_id = ''u3'', user_name = ''Carol'', isHost = False\<rparr>)
                     (toJSON (addUser ''u3'' ''Carol'' room1))),
           Send 2 (UserJoined (Some \<lparr>user_id = ''u3'', user_name = ''Carol'', isHost = False\<rparr>)
                     (toJSON (addUser ''u3'' ''Carol'' room1)))])
   \<and> map_of (rooms server1) (roomCode ((request ''join_room'')\<lparr>roomCode := ''NOPE''\<rparr>)) = None
   \<and> on_message 3 ''u3'' 7 (Wellformed ((request ''join_room'')\<lparr>roomCode := ''NOPE''\<rparr>)) unbound server1
       = (server1, unbound, [Send 3 (Error ''Room not found'')])"
proof -
  have t: "mtype (request ''join_room'') = ''join_room''"
      "mtype ((request ''join_room'')\<lparr>roomCode := ''NOPE''\<rparr>) = ''join_room''"
      "roomCode (request ''join_room'') = ''ROOM1''" "userName (request ''join_room'') = ''Carol''"
    by (simp_all add: request_def)
  have h: "map_of (rooms server1) (roomCode (request ''join_room'')) = Some room1"
      "map_of (rooms server1) (roomCode ((request ''join_room'')\<lparr>roomCode := ''NOPE''\<rparr>)) = None"
    by (simp_all add: server1_def request_def)
  have us: "users (addUser ''u3'' ''Carol'' room1)
      = [(''u1'', alice), (''u2'', bob),
         (''u3'', \<lparr>user_id = ''u3'', user_name = ''Carol'', isHost = False\<rparr>)]"
    by (simp add: addUser_def room1_def)
  have bc: "broadcastToRoom ''ROOM1'' x (Some ''u3'')
              (server1\<lparr>rooms := AList.update ''ROOM1'' (addUser ''u3'' ''Carol'' room1) (rooms server1),
                  userConnections := AList.update ''u3'' 3 (userConnections server1)\<rparr>)
            = [Send 1 x, Send 2 x]" for x
    by (simp add: broadcastToRoom_def sendTo_def server1_def us alice_def bob_def)
  have st: "server1\<lparr>rooms := AList.update ''ROOM1'' (addUser ''u3'' ''Carol'' room1) (rooms server1),
                  userConnections := AList.update ''u3'' 3 (userConnections server1)\<rparr>
       = server1\<lparr>rooms := [(''ROOM1'', addUser ''u3'' ''Carol'' room1)],
                  userConnections := [(''u1'', 1), (''u2'', 2), (''u3'', 3)]\<rparr>"
    by (simp add: server1_def)
  from join_room_reply_and_broadcast [OF t(1), of server1 3 "''u3''" 7 unbound room1]
       join_room_reply_and_broadcast [OF t(2), of server1 3 "''u3''" 7 unbound room1]
       t h bc st
  show ?thesis by (simp add: Let_def)
qed

text \<open>
  Claim C1, as amended. A \<^verbatim>\<open>create_room\<close> whose room code is already registered
  succeeds: \<^verbatim>\<open>rooms.set\<close> replaces the registered room, at its place in the Map, by a
  new room whose only user is the caller, as host, with an empty queue; the caller's id
  is registered with the calling socket and the session is bound; the only event is the
  \<^verbatim>\<open>room_created\<close> reply to the caller, so no error is sent and nothing is broadcast;
  every other room is unchanged.
\<close>

theorem create_room_replaces_registered_room:
  assumes "mtype m = ''create_room''" and "map_of (rooms st) (roomCode m) = Some r0"
  shows "(let r = new_Room (roomCode m) fresh (userName m) now;
              st' = st\<lparr>rooms := AList.update (roomCode m) r (rooms st),
                       userConnections := AList.update fresh w (userConnections st)\<rparr>
          in on_message w fresh now (Wellformed m) sess st
               = (st', \<lparr>s_userId = Some fresh, s_roomId = Some (roomCode m)\<rparr>,
                  [Send w (RoomCreated (roomCode m) fresh (toJSON r))])
             \<and> map_of (rooms st') (roomCode m) = Some r
             \<and> users r = [(fresh, \<lparr>user_id = fresh, user_name = userName m, isHost = True\<rparr>)]
             \<and> hostId r = fresh \<and> queue r = []
             \<and> map fst (rooms st') = map fst (rooms st)
             \<and> (\<forall>k. k \<noteq> roomCode m \<longrightarrow> map_of (rooms st') k = map_of (rooms st) k))"
proof -
  have "roomCode m \<in> fst ` set (rooms st)"
    using assms(2) by (metis domI dom_map_of_conv_image_fst)
  then have keys: "map fst (AList.update (roomCode m) v (rooms st)) = map fst (rooms st)" for v
    by (simp add: update_keys)
  show ?thesis
    using assms(1)
    by (simp add: dispatch_create handleCreateRoom_def Let_def update_conv' keys new_Room_def)
qed

theorem create_room_replaces_registered_room_witness:
  "mtype (request ''create_room'') = ''create_room''
   \<and> map_of (rooms server1) (roomCode (request ''create_room'')) = Some room1
   \<and> on_message 3 ''u3'' 7 (Wellformed (request ''create_room'')) unbound server1
       = (server1\<lparr>rooms := [(''ROOM1'', new_Room ''ROOM1'' ''u3'' ''Carol'' 7)],
                  userConnections := [(''u1'', 1), (''u2'', 2), (''u3'', 3)]\<rparr>,
          \<lparr>s_userId = Some ''u3'', s_roomId = Some ''ROOM1''\<rparr>,
          [Send 3 (RoomCreated ''ROOM1'' ''u3'' (toJSON (new_Room ''ROOM1'' ''u3'' ''Carol'' 7)))])"
proof -
  have t: "mtype (request ''create_room'') = ''create_room''"
      "roomCode (request ''create_room'') = ''ROOM1''" "userName (request ''create_room'') = ''Carol''"
    by (simp_all add: request_def)
  have h: "map_of (rooms server1) (roomCode (request ''create_room'')) = Some room1"
    by (simp add: server1_def request_def)
  have st: "server1\<lparr>rooms := AList.update ''ROOM1'' v (rooms server1),
                  userConnections := AList.update ''u3'' 3 (userConnections server1)\<rparr>
       = server1\<lparr>rooms := [(''ROOM1'', v)],
                  userConnections := [(''u1'', 1), (''u2'', 2), (''u3'', 3)]\<rparr>" for v
    by (simp add: server1_def)
  from create_room_replaces_registered_room [OF t(1) h, of "''u3''" 7 3 unbound] t h st
  show ?thesis by (simp add: Let_def)
qed

text \<open>
  Claim C1 as stated fails. In the scenario room, with Alice and Bob in \<^verbatim>\<open>ROOM1\<close>, a
  third connection sends \<^verbatim>\<open>create_room\<close> for \<^verbatim>\<open>ROOM1\<close>: the only event is a
  \<^verbatim>\<open>room_created\<close> reply, not an error, and the room registered under \<^verbatim>\<open>ROOM1\<close>
  afterwards is the new one with Carol alone, not the room that was there.
\<close>

theorem create_existing_room_counterexample:
  "map_of (rooms server1) (roomCode (request ''create_room'')) = Some room1
   \<and> snd (snd (on_message 3 ''u3'' 7 (Wellformed (request ''create_room'')) unbound server1))
       = [Send 3 (RoomCreated ''ROOM1'' ''u3'' (toJSON (new_Room ''ROOM1'' ''u3'' ''Carol'' 7)))]
   \<and> map_of (rooms (fst (on_message 3 ''u3'' 7 (Wellformed (request ''create_room'')) unbound server1)))
        ''ROOM1'' = Some (new_Room ''ROOM1'' ''u3'' ''Carol'' 7)
   \<and> new_Room ''ROOM1'' ''u3'' ''Carol'' 7 \<noteq> room1"
proof -
  have t: "mtype (request ''create_room'') = ''create_room''"
    by (simp add: request_def)
  have ne: "new_Room ''ROOM1'' ''u3'' ''Carol'' 7 \<noteq> room1"
    by (simp add: new_Room_def room1_def)
  have "on_message 3 ''u3'' 7 (Wellformed (request ''create_room'')) unbound server1
      = handleCreateRoom 3 (request ''create_room'') ''u3'' 7 unbound server1"
    using t by (rule dispatch_create)
  then show ?thesis
    using ne by (simp add: handleCreateRoom_def Let_def request_def server1_def)
qed

section \<open>Leaving a room\<close>

lemma removeUser_users_keys:
  "map fst (users (snd (removeUser uid r))) = removeAll uid (map fst (users r))"
proof (cases "AList.delete uid (users r)")
  case Nil
  then show ?thesis
    using delete_keys [of uid "users r"] by (simp add: removeUser_def)
next
  case (Cons p rest)
  then show ?thesis
    using delete_keys [of uid "users r"]
    by (cases p) (simp add: removeUser_def)
qed

lemma removeUser_last:
  assumes "map fst (users r) = [uid]"
  shows "users (snd (removeUser uid r)) = []"
  using removeUser_users_keys [of uid r] assms by simp

lemma removeUser_newHost:
  "fst (removeUser uid r) =
     (if uid = hostId r \<and> AList.delete uid (users r) \<noteq> []
      then Some (fst (hd (AList.delete uid (users r)))) else None)"
  by (cases "AList.delete uid (users r)") (auto simp: removeUser_def)

lemma dispatch_close:
  "session_ids sess = Some (u, r) \<Longrightarrow> on_close sess st = handleUserLeave u r st"
  by (simp add: on_close_def)

lemma handleUserLeave_empty:
  assumes "map_of (rooms st) roomId = Some r" and "users (snd (removeUser userId r)) = []"
  shows "handleUserLeave userId roomId st =
           (st\<lparr>rooms := AList.delete roomId (rooms st),
               userConnections := AList.delete userId (userConnections st)\<rparr>, [])"
  using assms
  by (simp add: handleUserLeave_def case_prod_unfold Let_def delete_update_same)

lemma handleUserLeave_remaining:
  assumes "map_of (rooms st) roomId = Some r" and "users (snd (removeUser userId r)) \<noteq> []"
  shows "handleUserLeave userId roomId st =
           (st\<lparr>rooms := AList.update roomId (snd (removeUser userId r)) (rooms st),
               userConnections := AList.delete userId (userConnections st)\<rparr>,
            broadcastToRoom roomId
              (UserLeft userId (map_option user_name (map_of (users r) userId))
                 (fst (removeUser userId r)) (toJSON (snd (removeUser userId r))))
              None
              (st\<lparr>rooms := AList.update roomId (snd (removeUser userId r)) (rooms st),
                  userConnections := AList.delete userId (userConnections st)\<rparr>))"
  using assms
  by (simp add: handleUserLeave_def case_prod_unfold Let_def)

text \<open>
  The leave handler. When the user that leaves is the only user of the room, the leave handler
  itself deletes the room from the store (and unregisters the user's socket) and
  broadcasts nothing; a \<^verbatim>\<open>join_room\<close> with that code on the resulting state is
  answered with \<^verbatim>\<open>Room not found\<close>. When users remain after the removal, the room
  stays registered with the remaining users, and every remaining member whose id has a
  registered open socket is sent \<^verbatim>\<open>user_left\<close> carrying the leaving user's id, the
  name the room held for it, the new host id that \<^verbatim>\<open>removeUser\<close> returned, and the
  snapshot of the room after the removal; nothing else is sent. The close callback runs
  this handler whenever its guard \<^verbatim>\<open>userId && roomId\<close> passes.
\<close>

lemma leave_deletes_empty_room_or_broadcasts:
  assumes "map_of (rooms st) roomId = Some r"
  shows "(map fst (users r) = [userId] \<longrightarrow>
            (let st' = st\<lparr>rooms := AList.delete roomId (rooms st),
                          userConnections := AList.delete userId (userConnections st)\<rparr>
             in handleUserLeave userId roomId st = (st', [])
                \<and> map_of (rooms st') roomId = None
                \<and> (mtype m = ''join_room'' \<and> roomCode m = roomId \<longrightarrow>
                     on_message w fresh now (Wellformed m) sess' st'
                       = (st', sess', [Send w (Error ''Room not found'')]))))
       \<and> (users (snd (removeUser userId r)) \<noteq> [] \<longrightarrow>
            (let r' = snd (removeUser userId r);
                 st' = st\<lparr>rooms := AList.update roomId r' (rooms st),
                          userConnections := AList.delete userId (userConnections st)\<rparr>;
                 left = UserLeft userId (map_option user_name (map_of (users r) userId))
                          (fst (removeUser userId r)) (toJSON r')
             in handleUserLeave userId roomId st = (st', broadcastToRoom roomId left None st')
                \<and> map_of (rooms st') roomId = Some r'
                \<and> map fst (users r') = removeAll userId (map fst (users r))
                \<and> (\<forall>e. e \<in> set (snd (handleUserLeave userId roomId st)) \<longleftrightarrow>
                       (\<exists>k u c. (k, u) \<in> set (users r')
                          \<and> map_of (userConnections st') (user_id u) = Some c
                          \<and> readyState st c = OPEN \<and> e = Send c left))))
       \<and> (session_ids sess = Some (userId, roomId) \<longrightarrow>
            on_close sess st = handleUserLeave userId roomId st)"
proof -
  let ?gone = "st\<lparr>rooms := AList.delete roomId (rooms st),
                   userConnections := AList.delete userId (userConnections st)\<rparr>"
  let ?r' = "snd (removeUser userId r)"
  let ?st' = "st\<lparr>rooms := AList.update roomId ?r' (rooms st),
                  userConnections := AList.delete userId (userConnections st)\<rparr>"
  have gone: "map_of (rooms ?gone) roomId = None"
    by (simp add: delete_conv')
  have last: "handleUserLeave userId roomId st = (?gone, [])
      \<and> map_of (rooms ?gone) roomId = None
      \<and> (mtype m = ''join_room'' \<and> roomCode m = roomId \<longrightarrow>
           on_message w fresh now (Wellformed m) sess' ?gone
             = (?gone, sess', [Send w (Error ''Room not found'')]))"
    if "map fst (users r) = [userId]"
  proof -
    have "handleUserLeave userId roomId st = (?gone, [])"
      using assms removeUser_last [OF that] by (rule handleUserLeave_empty)
    moreover have "on_message w fresh now (Wellformed m) sess' ?gone
             = (?gone, sess', [Send w (Error ''Room not found'')])"
      if "mtype m = ''join_room''" "roomCode m = roomId"
      using that gone by (simp only: dispatch_join handleJoinRoom_missing)
    ultimately show ?thesis
      using gone by blast
  qed
  have room': "map_of (rooms ?st') roomId = Some ?r'"
    by (simp add: update_conv')
  have rs: "readyState ?st' = readyState st"
    by simp
  have bc: "e \<in> set (broadcastToRoom roomId x None ?st') \<longleftrightarrow>
       (\<exists>k u c. (k, u) \<in> set (users ?r')
          \<and> map_of (userConnections ?st') (user_id u) = Some c
          \<and> readyState st c = OPEN \<and> e = Send c x)" for e x
    unfolding broadcastToRoom_iff [OF room'] rs by simp
  have remain: "handleUserLeave userId roomId st
        = (?st', broadcastToRoom roomId
                   (UserLeft userId (map_option user_name (map_of (users r) userId))
                      (fst (removeUser userId r)) (toJSON ?r')) None ?st')"
    if "users ?r' \<noteq> []"
    using assms that by (rule handleUserLeave_remaining)
  show ?thesis
    unfolding Let_def
    using last remain room' bc removeUser_users_keys [of userId r] dispatch_close [of sess userId roomId st]
    by (auto simp del: removeAll.simps)
qed


lemma leave_deletes_empty_room_or_broadcasts_witness:
  "map_of (rooms server1) ''ROOM1'' = Some room1
   \<and> users (snd (removeUser ''u1'' room1)) \<noteq> []
   \<and> session_ids alice_session = Some (''u1'', ''ROOM1'')
   \<and> on_close alice_session server1
       = (server3, [Send 2 (UserLeft ''u1'' (Some ''Alice'') (Some ''u2'') (toJSON room3))])
   \<and> map_of (rooms server3) ''ROOM1'' = Some room3
   \<and> map fst (users room3) = [''u2'']
   \<and> handleUserLeave ''u2'' ''ROOM1'' server3 = (server3\<lparr>rooms := [], userConnections := []\<rparr>, [])
   \<and> mtype (request ''join_room'') = ''join_room'' \<and> roomCode (request ''join_room'') = ''ROOM1''
   \<and> on_message 3 ''u3'' 7 (Wellformed (request ''join_room'')) unbound
        (server3\<lparr>rooms := [], userConnections := []\<rparr>)
       = (server3\<lparr>rooms := [], userConnections := []\<rparr>, unbound, [Send 3 (Error ''Room not found'')])"
proof -
  have h1: "map_of (rooms server1) ''ROOM1'' = Some room1"
    by (simp add: server1_def)
  have h3: "map_of (rooms server3) ''ROOM1'' = Some room3"
    by (simp add: server3_def)
  have rm: "removeUser ''u1'' room1 = (Some ''u2'', room3)"
    by (simp add: removeUser_def room1_def room3_def alice_def bob_def)
  have ne: "users (snd (removeUser ''u1'' room1)) \<noteq> []"
    by (simp add: rm room3_def)
  have a: "session_ids alice_session = Some (''u1'', ''ROOM1'')"
    by (simp add: session_ids_Some alice_session_def)
  have nm: "map_option user_name (map_of (users room1) ''u1'') = Some ''Alice''"
    by (simp add: room1_def alice_def)
  have st1: "server1\<lparr>rooms := AList.update ''ROOM1'' room3 (rooms server1),
                    userConnections := AList.delete ''u1'' (userConnections server1)\<rparr> = server3"
    by (simp add: server1_def server3_def)
  have bc: "broadcastToRoom ''ROOM1'' x None server3 = [Send 2 x]" for x
    by (simp add: broadcastToRoom_def sendTo_def server3_def room3_def bob_def)
  have last: "map fst (users room3) = [''u2'']"
    by (simp add: room3_def)
  have st3: "server3\<lparr>rooms := AList.delete ''ROOM1'' (rooms server3),
                    userConnections := AList.delete ''u2'' (userConnections server3)\<rparr>
             = server3\<lparr>rooms := [], userConnections := []\<rparr>"
    by (simp add: server3_def)
  have t: "mtype (request ''join_room'') = ''join_room''" "roomCode (request ''join_room'') = ''ROOM1''"
    by (simp_all add: request_def)
  from leave_deletes_empty_room_or_broadcasts [OF h1, of "''u1''" "request ''join_room''" 3 "''u3''" 7 unbound alice_session]
       leave_deletes_empty_room_or_broadcasts [OF h3, of "''u2''" "request ''join_room''" 3 "''u3''" 7 unbound alice_session]
       h1 h3 ne a last t
  show ?thesis
    by (simp add: Let_def rm nm st1 st3 bc)
qed

section \<open>The idle sweep\<close>

lemma expired_keys_Cons:
  "fst ` {p \<in> set (e # es). Q p} =
     (if Q e then insert (fst e) (fst ` {p \<in> set es. Q p}) else fst ` {p \<in> set es. Q p})"
  by auto

lemma cleanupLoop_filter:
  "cleanupLoop t es rs =
     filter (\<lambda>(k, r). k \<notin> fst ` {p \<in> set es. users (snd p) = [] \<and> createdAt (snd p) < t}) rs"
proof (induction es arbitrary: rs)
  case Nil
  then show ?case by simp
next
  case (Cons e es)
  obtain k r where e: "e = (k, r)" by (cases e)
  let ?D = "fst ` {p \<in> set es. users (snd p) = [] \<and> createdAt (snd p) < t}"
  show ?case
  proof (cases "users r = [] \<and> createdAt r < t")
    case True
    then have D: "fst ` {p \<in> set (e # es). users (snd p) = [] \<and> createdAt (snd p) < t} = insert k ?D"
      by (simp only: expired_keys_Cons e fst_conv snd_conv) simp
    from True have "cleanupLoop t (e # es) rs = cleanupLoop t es (AList.delete k rs)"
      by (simp add: e)
    also have "\<dots> = filter (\<lambda>(k', r'). k' \<notin> ?D) (filter (\<lambda>(k', r'). k \<noteq> k') rs)"
      by (simp only: Cons.IH AList.delete_eq)
    also have "\<dots> = filter (\<lambda>(k', r'). k' \<notin> insert k ?D) rs"
      by (auto simp: case_prod_unfold intro!: filter_cong)
    finally show ?thesis
      unfolding D .
  next
    case False
    then have D: "fst ` {p \<in> set (e # es). users (snd p) = [] \<and> createdAt (snd p) < t} = ?D"
      by (simp only: expired_keys_Cons e fst_conv snd_conv) simp
    from False have "cleanupLoop t (e # es) rs = cleanupLoop t es rs"
      by (auto simp: e)
    also have "\<dots> = filter (\<lambda>(k', r'). k' \<notin> ?D) rs"
      by (simp only: Cons.IH)
    finally show ?thesis
      unfolding D .
  qed
qed

lemma distinct_keys_unique:
  "distinct (map fst rs) \<Longrightarrow> (k, r) \<in> set rs \<Longrightarrow> (k, r') \<in> set rs \<Longrightarrow> r = r'"
  by (metis map_of_is_SomeI option.inject)

lemma cleanupLoop_self:
  assumes "distinct (map fst rs)"
  shows "cleanupLoop t rs rs = filter (\<lambda>(k, r). \<not> (users r = [] \<and> createdAt r < t)) rs"
  unfolding cleanupLoop_filter
proof (rule filter_cong [OF refl])
  fix p assume p: "p \<in> set rs"
  obtain k r where kr: "p = (k, r)" by (cases p)
  have "k \<in> fst ` {p \<in> set rs. users (snd p) = [] \<and> createdAt (snd p) < t}
        \<longleftrightarrow> users r = [] \<and> createdAt r < t"
  proof
    assume "k \<in> fst ` {p \<in> set rs. users (snd p) = [] \<and> createdAt (snd p) < t}"
    then obtain r' where "(k, r') \<in> set rs" "users r' = [] \<and> createdAt r' < t"
      by auto
    moreover have "r' = r"
      using distinct_keys_unique [OF assms] calculation(1) p kr by blast
    ultimately show "users r = [] \<and> createdAt r < t" by simp
  next
    assume "users r = [] \<and> createdAt r < t"
    then show "k \<in> fst ` {p \<in> set rs. users (snd p) = [] \<and> createdAt (snd p) < t}"
      using p kr by force
  qed
  then show "(case p of (k, r) \<Rightarrow> k \<notin> fst ` {p \<in> set rs. users (snd p) = [] \<and> createdAt (snd p) < t})
           = (case p of (k, r) \<Rightarrow> \<not> (users r = [] \<and> createdAt r < t))"
    by (simp add: kr)
qed

lemma map_of_filter_distinct:
  "distinct (map fst rs) \<Longrightarrow>
   map_of (filter (\<lambda>(k, r). P r) rs) k =
     (case map_of rs k of None \<Rightarrow> None | Some r \<Rightarrow> if P r then Some r else None)"
proof (induction rs)
  case Nil
  then show ?case by simp
next
  case (Cons p rs)
  obtain k' r' where p: "p = (k', r')" by (cases p)
  from Cons.prems have d: "distinct (map fst rs)" and nin: "k' \<notin> fst ` set rs"
    by (simp_all add: p)
  have none: "map_of rs k' = None"
    using nin by (simp add: map_of_eq_None_iff)
  show ?case
    using Cons.IH [OF d] none by (auto simp: p split: option.splits)
qed

text \<open>
  Claim C8. The keys of the \<^verbatim>\<open>rooms\<close> Map being distinct, as they are in a JavaScript
  Map, \<^verbatim>\<open>cleanupEmptyRooms\<close> at time \<open>now\<close> keeps, in order and unchanged, exactly the
  entries whose room has a user or was created at or after \<open>now - 3600000\<close> ms, and
  removes exactly the entries whose room has no user and was created before that
  instant; the registered connections and the sockets are untouched.
\<close>

theorem cleanupEmptyRooms_removes_exactly:
  assumes "distinct (map fst (rooms st))"
  shows "rooms (cleanupEmptyRooms now st)
           = filter (\<lambda>(k, r). \<not> (users r = [] \<and> createdAt r < now - 3600000)) (rooms st)
       \<and> (\<forall>k. map_of (rooms (cleanupEmptyRooms now st)) k =
                (case map_of (rooms st) k of
                   None \<Rightarrow> None
                 | Some r \<Rightarrow> if users r = [] \<and> createdAt r < now - 3600000 then None else Some r))
       \<and> userConnections (cleanupEmptyRooms now st) = userConnections st
       \<and> readyState (cleanupEmptyRooms now st) = readyState st"
proof -
  have eq: "rooms (cleanupEmptyRooms now st)
           = filter (\<lambda>(k, r). \<not> (users r = [] \<and> createdAt r < now - 3600000)) (rooms st)"
    by (simp add: cleanupEmptyRooms_def cleanupLoop_self [OF assms])
  have "map_of (rooms (cleanupEmptyRooms now st)) k =
          (case map_of (rooms st) k of
             None \<Rightarrow> None
           | Some r \<Rightarrow> if users r = [] \<and> createdAt r < now - 3600000 then None else Some r)" for k
    unfolding eq
    using map_of_filter_distinct [OF assms, of "\<lambda>r. \<not> (users r = [] \<and> createdAt r < now - 3600000)" k]
    by (simp split: option.splits)
  with eq show ?thesis
    by (simp add: cleanupEmptyRooms_def)
qed

theorem cleanupEmptyRooms_removes_exactly_witness:
  "distinct (map fst (rooms server4))
   \<and> rooms (cleanupEmptyRooms 4000000 server4) = [(''ROOM1'', room1), (''NEW'', recent)]
   \<and> map_of (rooms (cleanupEmptyRooms 4000000 server4)) ''OLD'' = None
   \<and> map_of (rooms (cleanupEmptyRooms 4000000 server4)) ''NEW'' = Some recent"
proof -
  have d: "distinct (map fst (rooms server4))"
    by (simp add: server4_def)
  have f: "filter (\<lambda>(k, r). \<not> (users r = [] \<and> createdAt r < 4000000 - 3600000)) (rooms server4)
           = [(''ROOM1'', room1), (''NEW'', recent)]"
    by (simp add: server4_def stale_def recent_def room1_def)
  from cleanupEmptyRooms_removes_exactly [OF d, of 4000000] d f
  show ?thesis by simp
qed

section \<open>The Map invariant\<close>

text \<open>
  The hypothesis of the sweep theorem is an invariant of the handler: the store starts
  empty, and the message callback, the close callback and the sweep keep the keys of
  \<^verbatim>\<open>rooms\<close> distinct.
\<close>

lemma distinct_rooms_handleJoinRoom:
  "distinct (map fst (rooms st)) \<Longrightarrow>
   distinct (map fst (rooms (fst (handleJoinRoom w m fresh sess st))))"
  by (simp add: handleJoinRoom_def Let_def distinct_update split: option.splits)

lemma distinct_rooms_handleCreateRoom:
  "distinct (map fst (rooms st)) \<Longrightarrow>
   distinct (map fst (rooms (fst (handleCreateRoom w m fresh now sess st))))"
  by (simp add: handleCreateRoom_def Let_def distinct_update)

lemma distinct_rooms_handleAddSong:
  "distinct (map fst (rooms st)) \<Longrightarrow>
   distinct (map fst (rooms (fst (handleAddSong m u r fresh st))))"
  by (simp add: handleAddSong_def Let_def case_prod_unfold distinct_update split: option.splits)

lemma distinct_rooms_handleVoteSong:
  "distinct (map fst (rooms st)) \<Longrightarrow>
   distinct (map fst (rooms (fst (handleVoteSong w m u r st))))"
  by (simp add: handleVoteSong_def Let_def case_prod_unfold distinct_update split: option.splits)

lemma distinct_rooms_handleSkipSong:
  "distinct (map fst (rooms st)) \<Longrightarrow>
   distinct (map fst (rooms (fst (handleSkipSong w m u r st))))"
  by (simp add: handleSkipSong_def Let_def case_prod_unfold distinct_update split: option.splits)

lemma distinct_rooms_handleClearQueue:
  "distinct (map fst (rooms st)) \<Longrightarrow>
   distinct (map fst (rooms (fst (handleClearQueue w m u r st))))"
  by (simp add: handleClearQueue_def Let_def distinct_update split: option.splits)

lemma distinct_rooms_handleGetRoomState:
  "distinct (map fst (rooms st)) \<Longrightarrow>
   distinct (map fst (rooms (fst (handleGetRoomState w m r st))))"
  by (simp add: handleGetRoomState_def split: option.splits)

lemma distinct_rooms_handleUserLeave:
  "distinct (map fst (rooms st)) \<Longrightarrow>
   distinct (map fst (rooms (fst (handleUserLeave u r st))))"
  by (simp add: handleUserLeave_def Let_def case_prod_unfold distinct_update distinct_delete
      split: option.splits)

lemma distinct_rooms_on_message:
  assumes "distinct (map fst (rooms st))"
  shows "distinct (map fst (rooms (fst (on_message w fresh now d sess st))))"
proof (cases d)
  case Malformed
  with assms show ?thesis
    by (simp add: on_message_def try_body_def JSON_parse_def)
next
  case JsonNull
  with assms show ?thesis
    by (simp add: on_message_def try_body_def JSON_parse_def)
next
  case (Wellformed m)
  with assms show ?thesis
    by (simp add: on_message_def try_body_def JSON_parse_def keep_session_def
        distinct_rooms_handleJoinRoom distinct_rooms_handleCreateRoom
        distinct_rooms_handleAddSong distinct_rooms_handleVoteSong
        distinct_rooms_handleSkipSong distinct_rooms_handleClearQueue
        distinct_rooms_handleGetRoomState split: option.splits)
qed

lemma distinct_rooms_on_close:
  "distinct (map fst (rooms st)) \<Longrightarrow> distinct (map fst (rooms (fst (on_close sess st))))"
  by (simp add: on_close_def distinct_rooms_handleUserLeave split: option.splits)

lemma distinct_rooms_cleanupEmptyRooms:
  "distinct (map fst (rooms st)) \<Longrightarrow> distinct (map fst (rooms (cleanupEmptyRooms now st)))"
  by (simp add: cleanupEmptyRooms_def cleanupLoop_filter distinct_map_filter)

section \<open>Sessions bound to the empty room code\<close>

text \<open>
  \<^verbatim>\<open>handleCreateRoom\<close> and \<^verbatim>\<open>handleJoinRoom\<close> take any string as room code, the
  empty one included: the room is registered under it and the session variables are
  set. The guard \<^verbatim>\<open>userId && roomId\<close> of the session-scoped cases and of the close
  callback is JavaScript truthiness, which the empty string fails. So for such a
  session the guard never passes, although the session is set.
\<close>

lemma blank1_eq:
  "blank1 = \<lparr>rooms = [([], new_Room [] ''u1'' ''Alice'' 0)],
             userConnections = [(''u1'', 1)], readyState = (\<lambda>w. OPEN)\<rparr>"
  by (simp add: blank1_def on_message_def try_body_def JSON_parse_def handleCreateRoom_def
      blank_request_def server0_def Let_def)

lemma blank_alice_eq: "blank_alice = \<lparr>s_userId = Some ''u1'', s_roomId = Some []\<rparr>"
  by (simp add: blank_alice_def on_message_def try_body_def JSON_parse_def handleCreateRoom_def
      blank_request_def Let_def)

lemma blank2_eq:
  "blank2 = \<lparr>rooms = [([], addUser ''u2'' ''Bob'' (new_Room [] ''u1'' ''Alice'' 0))],
             userConnections = [(''u1'', 1), (''u2'', 2)], readyState = (\<lambda>w. OPEN)\<rparr>"
  by (simp add: blank2_def blank1_eq on_message_def try_body_def JSON_parse_def
      handleJoinRoom_def blank_request_def Let_def)

lemma blank_bob_eq: "blank_bob = \<lparr>s_userId = Some ''u2'', s_roomId = Some []\<rparr>"
  by (simp add: blank_bob_def blank1_eq on_message_def try_body_def JSON_parse_def
      handleJoinRoom_def blank_request_def Let_def)

lemma session_ids_blank: "s_roomId sess = Some [] \<Longrightarrow> session_ids sess = None"
  by (simp add: session_ids_def truthy_def split: option.splits)

text \<open>
  Claim C2. A \<^verbatim>\<open>skip_song\<close> or \<^verbatim>\<open>clear_queue\<close> message from a connection whose bound
  user id differs from the room's host id is to leave the state unchanged, broadcast
  nothing and send exactly one error to the caller. The handlers do so (lemma
  \<open>handleSkipSong_reject\<close> and its sibling), but the message callback does not always
  reach them. In the run from the empty server, Bob's session is bound to user
  \<^verbatim>\<open>u2\<close> and the room with the empty code, whose host is \<^verbatim>\<open>u1\<close>; his
  \<^verbatim>\<open>skip_song\<close> and his \<^verbatim>\<open>clear_queue\<close> leave the state unchanged and send nothing
  at all, where \<^verbatim>\<open>handleSkipSong\<close> on the same ids would have sent the error.
\<close>

theorem non_host_skip_dropped_for_blank_room_code:
  "blank_bob = \<lparr>s_userId = Some ''u2'', s_roomId = Some []\<rparr>
   \<and> map_option hostId (map_of (rooms blank2) []) = Some ''u1''
   \<and> on_message 2 ''u3'' 2 (Wellformed (blank_request ''skip_song'' ''Bob'')) blank_bob blank2
       = (blank2, blank_bob, [])
   \<and> on_message 2 ''u3'' 2 (Wellformed (blank_request ''clear_queue'' ''Bob'')) blank_bob blank2
       = (blank2, blank_bob, [])
   \<and> handleSkipSong 2 (blank_request ''skip_song'' ''Bob'') ''u2'' [] blank2
       = (blank2, [Send 2 (Error ''Only host can skip songs'')])"
proof -
  have host: "map_option hostId (map_of (rooms blank2) []) = Some ''u1''"
    by (simp add: blank2_eq addUser_def new_Room_def)
  have none: "session_ids blank_bob = None"
    by (rule session_ids_blank) (simp add: blank_bob_eq)
  have skip: "on_message 2 ''u3'' 2 (Wellformed (blank_request ''skip_song'' ''Bob'')) blank_bob blank2
       = (blank2, blank_bob, [])"
    using none by (simp add: on_message_def try_body_def JSON_parse_def blank_request_def)
  have clear: "on_message 2 ''u3'' 2 (Wellformed (blank_request ''clear_queue'' ''Bob'')) blank_bob blank2
       = (blank2, blank_bob, [])"
    using none by (simp add: on_message_def try_body_def JSON_parse_def blank_request_def)
  have h: "map_of (rooms blank2) [] = None
           \<or> (\<exists>r. map_of (rooms blank2) [] = Some r \<and> hostId r \<noteq> ''u2'')"
    by (simp add: blank2_eq addUser_def new_Room_def)
  from host skip clear handleSkipSong_reject [OF h] blank_bob_eq
  show ?thesis by simp
qed

text \<open>
  Claim C5. A \<^verbatim>\<open>vote_song\<close> message from a bound session whose room exists is to be
  answered with the \<^verbatim>\<open>song_voted\<close> broadcast when the vote succeeds and with one
  error to the caller when it fails. The handler does so (lemmas
  \<open>handleVoteSong_success\<close>, \<open>handleVoteSong_fail\<close>), but the message callback does not
  always reach it. In the run from the empty server, Alice's session is bound to the
  registered room with the empty code; her vote for a song that is not in the queue
  fails, and she is sent nothing, where \<^verbatim>\<open>handleVoteSong\<close> on the same ids would have
  sent the error.
\<close>

theorem failed_vote_dropped_for_blank_room_code:
  "blank_alice = \<lparr>s_userId = Some ''u1'', s_roomId = Some []\<rparr>
   \<and> map_of (rooms blank1) [] = Some (new_Room [] ''u1'' ''Alice'' 0)
   \<and> fst (voteSong (songId (blank_request ''vote_song'' ''Alice'')) ''u1''
           (new_Room [] ''u1'' ''Alice'' 0)) = False
   \<and> on_message 1 ''u3'' 2 (Wellformed (blank_request ''vote_song'' ''Alice'')) blank_alice blank1
       = (blank1, blank_alice, [])
   \<and> handleVoteSong 1 (blank_request ''vote_song'' ''Alice'') ''u1'' [] blank1
       = (blank1, [Send 1 (Error ''Already voted for this song'')])"
proof -
  have room: "map_of (rooms blank1) [] = Some (new_Room [] ''u1'' ''Alice'' 0)"
    by (simp add: blank1_eq)
  have fails: "\<not> fst (voteSong (songId (blank_request ''vote_song'' ''Alice'')) ''u1''
           (new_Room [] ''u1'' ''Alice'' 0))"
    by (simp add: voteSong_def new_Room_def)
  have none: "session_ids blank_alice = None"
    by (rule session_ids_blank) (simp add: blank_alice_eq)
  have dropped: "on_message 1 ''u3'' 2 (Wellformed (blank_request ''vote_song'' ''Alice'')) blank_alice blank1
       = (blank1, blank_alice, [])"
    using none by (simp add: on_message_def try_body_def JSON_parse_def blank_request_def)
  from room fails dropped handleVoteSong_fail [OF room fails, of 1] blank_alice_eq
  show ?thesis by simp
qed

text \<open>
  Claim C3. When the disconnect of a room's last remaining user is processed the room
  is to be deleted in the same handler, so that a later \<^verbatim>\<open>join_room\<close> with its code is
  answered with \<^verbatim>\<open>Room not found\<close>. \<^verbatim>\<open>handleUserLeave\<close> does so (lemma
  \<open>handleUserLeave_empty\<close>), but the close callback does not always call it. In the run
  from the empty server, Alice is the only user of the room with the empty code; when her
  socket closes, the close callback changes nothing: the room stays registered with
  Alice as its user and her socket stays registered. Bob's \<^verbatim>\<open>join_room\<close> with that
  code is then answered with \<^verbatim>\<open>room_joined\<close>, where \<^verbatim>\<open>handleUserLeave\<close> on Alice's
  ids would have deleted the room.
\<close>

theorem last_user_close_dropped_for_blank_room_code:
  "blank_alice = \<lparr>s_userId = Some ''u1'', s_roomId = Some []\<rparr>
   \<and> map_of (rooms blank1_closed) [] = Some (new_Room [] ''u1'' ''Alice'' 0)
   \<and> map fst (users (new_Room [] ''u1'' ''Alice'' 0)) = [''u1'']
   \<and> on_close blank_alice blank1_closed = (blank1_closed, [])
   \<and> snd (snd (on_message 2 ''u2'' 5 (Wellformed (blank_request ''join_room'' ''Bob''))
                  unbound (fst (on_close blank_alice blank1_closed))))
       = [Send 2 (RoomJoined [] ''u2'' (toJSON (addUser ''u2'' ''Bob'' (new_Room [] ''u1'' ''Alice'' 0))))]
   \<and> map_of (rooms (fst (handleUserLeave ''u1'' [] blank1_closed))) [] = None"
proof -
  have st: "blank1_closed = \<lparr>rooms = [([], new_Room [] ''u1'' ''Alice'' 0)],
             userConnections = [(''u1'', 1)], readyState = (\<lambda>w. OPEN)(1 := CLOSED)\<rparr>"
    by (simp add: blank1_closed_def blank1_eq)
  have room: "map_of (rooms blank1_closed) [] = Some (new_Room [] ''u1'' ''Alice'' 0)"
    by (simp add: st)
  have last: "map fst (users (new_Room [] ''u1'' ''Alice'' 0)) = [''u1'']"
    by (simp add: new_Room_def)
  have none: "session_ids blank_alice = None"
    by (rule session_ids_blank) (simp add: blank_alice_eq)
  have closed: "on_close blank_alice blank1_closed = (blank1_closed, [])"
    using none by (simp add: on_close_def)
  have t: "mtype (blank_request ''join_room'' ''Bob'') = ''join_room''"
      "roomCode (blank_request ''join_room'' ''Bob'') = []"
      "userName (blank_request ''join_room'' ''Bob'') = ''Bob''"
    by (simp_all add: blank_request_def)
  have us: "users (addUser ''u2'' ''Bob'' (new_Room [] ''u1'' ''Alice'' 0))
      = [(''u1'', \<lparr>user_id = ''u1'', user_name = ''Alice'', isHost = True\<rparr>),
         (''u2'', \<lparr>user_id = ''u2'', user_name = ''Bob'', isHost = False\<rparr>)]"
    by (simp add: addUser_def new_Room_def)
  have joined: "snd (snd (on_message 2 ''u2'' 5 (Wellformed (blank_request ''join_room'' ''Bob''))
                  unbound blank1_closed))
       = [Send 2 (RoomJoined [] ''u2'' (toJSON (addUser ''u2'' ''Bob'' (new_Room [] ''u1'' ''Alice'' 0))))]"
    by (simp add: dispatch_join [OF t(1)] handleJoinRoom_def t Let_def st
        broadcastToRoom_def sendTo_def us)
  have gone: "map_of (rooms (fst (handleUserLeave ''u1'' [] blank1_closed))) [] = None"
    by (simp add: handleUserLeave_empty [OF room removeUser_last [OF last]] delete_conv')
  from room last closed joined gone blank_alice_eq
  show ?thesis by simp
qed

end
